theory Spec2Isabelle
  imports Complex_Main
begin

section \<open>Data model\<close>

text \<open>
  A path is either a name chosen by the caller or a file made by
  \<^verbatim>\<open>tempfile.NamedTemporaryFile(delete=False, suffix=...)\<close>. A temporary file is
  identified by its serial number (standing for the random part of its name, which never
  holds a dot) and the suffix it was asked for.
\<close>

datatype path = NamedPath string | TempFile nat string

datatype error =
    FileNotFoundError path
  | ValueError string
  | ZeroDivisionError
  | Exception string
  | RequestException string
  | URLError string

record request =
  req_file :: path
  req_model :: string
  req_format :: string
  req_language :: "string option"
  req_prompt :: "string option"
  req_authorization :: string

text \<open>
  What \<^verbatim>\<open>requests.post\<close> hands back: the status code, the raw body
  (\<^verbatim>\<open>response.text\<close>), the \<^verbatim>\<open>text\<close> field of the parsed body
  (\<^verbatim>\<open>result.get('text', '')\<close>) and the rendering that \<^verbatim>\<open>_format_verbose\<close>
  makes of the parsed body.
\<close>

record response =
  status_code :: int
  response_text :: string
  json_text :: string
  json_verbose :: string

datatype http_outcome = Responded response | RequestFailed string

datatype event =
    Probe path
  | Extract path path
  | Cut path real real path
  | Post request
  | Download string path

text \<open>
  The world outside the program: what ffprobe reports for a file (\<open>None\<close> when
  \<^verbatim>\<open>get_duration\<close> catches a failure), the size of a file in bytes, the outcome of
  the two ffmpeg commands (\<open>Some stderr\<close> is a \<^verbatim>\<open>CalledProcessError\<close>), the answer of the
  transcription service and the outcome of a download. Durations are Python floats, taken
  here as exact reals. Not modelled: a missing ffmpeg binary (which makes
  \<^verbatim>\<open>subprocess.run\<close> raise something other than \<^verbatim>\<open>CalledProcessError\<close>) and a 200 answer
  whose body is not JSON.
\<close>

record env =
  env_probe :: "path \<Rightarrow> real option"
  env_size :: "path \<Rightarrow> nat"
  env_extract :: "path \<Rightarrow> string option"
  env_cut :: "path \<Rightarrow> real \<Rightarrow> real \<Rightarrow> bool"
  env_post :: "request \<Rightarrow> http_outcome"
  env_download :: "string \<Rightarrow> bool"

text \<open>
  The state the program changes: the files that exist, the serial number of the next
  temporary file, and the external commands and requests issued so far, oldest first.
\<close>

record state =
  files :: "path set"
  next_tmp :: nat
  trace :: "event list"

record transcriptor =
  api_key :: string
  default_model :: string

record result =
  res_text :: string
  res_language :: string
  res_duration :: "real option"
  res_success :: bool
  res_model :: string
  res_chunks :: nat

datatype fileobj = HasRead | HasFile | Unsupported

datatype source = PathStr path | FileObject fileobj

section \<open>Helpers of the run-time library\<close>

fun show_nat :: "nat \<Rightarrow> string" where
  "show_nat n =
     (if n < 10 then [''0123456789'' ! n]
      else show_nat (n div 10) @ [''0123456789'' ! (n mod 10)])"

declare show_nat.simps [simp del]

definition show_int :: "int \<Rightarrow> string" where
  "show_int i = (if i < 0 then CHR ''-'' # show_nat (nat (- i)) else show_nat (nat i))"

text \<open>\<^verbatim>\<open>sep.join(xs)\<close>\<close>

fun join :: "string \<Rightarrow> string list \<Rightarrow> string" where
  "join sep [] = []"
| "join sep [x] = x"
| "join sep (x # y # ys) = x @ sep @ join sep (y # ys)"

definition lower_char :: "char \<Rightarrow> char" where
  "lower_char c =
     (let n = (of_char c :: nat) in if 65 \<le> n \<and> n \<le> 90 then char_of (n + 32) else c)"

definition final_component :: "string \<Rightarrow> string" where
  "final_component p = rev (takeWhile (\<lambda>c. c \<noteq> CHR ''/'') (rev p))"

text \<open>
  \<^verbatim>\<open>PurePath.suffix\<close>: with \<open>i\<close> the index of the last dot of the name, the suffix is
  \<^verbatim>\<open>name[i:]\<close> when \<^verbatim>\<open>0 < i < len(name) - 1\<close> and empty otherwise.
\<close>

definition py_suffix :: "string \<Rightarrow> string" where
  "py_suffix name =
     (let ext = rev (takeWhile (\<lambda>c. c \<noteq> CHR ''.'') (rev name))
      in if CHR ''.'' \<in> set name \<and> ext \<noteq> [] \<and> length ext + 1 < length name
         then CHR ''.'' # ext else [])"

fun path_suffix :: "path \<Rightarrow> string" where
  "path_suffix (NamedPath s) = py_suffix (final_component s)"
| "path_suffix (TempFile n suf) = py_suffix (''tmp'' @ suf)"

definition emit :: "event \<Rightarrow> state \<Rightarrow> state" where
  "emit e st = st\<lparr>trace := trace st @ [e]\<rparr>"

definition named_temporary_file :: "string \<Rightarrow> state \<Rightarrow> path \<times> state" where
  "named_temporary_file suf st =
     (TempFile (next_tmp st) suf,
      st\<lparr>files := insert (TempFile (next_tmp st) suf) (files st),
         next_tmp := Suc (next_tmp st)\<rparr>)"

text \<open>\<^verbatim>\<open>if os.path.exists(p): os.remove(p)\<close>\<close>

definition remove_if_exists :: "path \<Rightarrow> state \<Rightarrow> state" where
  "remove_if_exists p st = st\<lparr>files := files st - {p}\<rparr>"

section \<open>audio.py: AudioProcessor\<close>

definition VIDEO_EXTENSIONS :: "string list" where
  "VIDEO_EXTENSIONS =
     [''.mp4'', ''.mov'', ''.avi'', ''.mkv'', ''.webm'',
      ''.flv'', ''.wmv'', ''.m4v'', ''.mpg'', ''.mpeg'']"

definition is_video :: "path \<Rightarrow> bool" where
  "is_video filepath = (map lower_char (path_suffix filepath) \<in> set VIDEO_EXTENSIONS)"

definition get_duration :: "env \<Rightarrow> path \<Rightarrow> state \<Rightarrow> real option \<times> state" where
  "get_duration e filepath st = (env_probe e filepath, emit (Probe filepath) st)"

definition extract_audio :: "env \<Rightarrow> path \<Rightarrow> state \<Rightarrow> (error + path) \<times> state" where
  "extract_audio e video_path st =
     (let (output_path, st1) = named_temporary_file ''.wav'' st;
          st2 = emit (Extract video_path output_path) st1
      in case env_extract e video_path of
           None \<Rightarrow> (Inr output_path, st2)
         | Some stderr \<Rightarrow>
             (Inl (Exception (''Error extrayendo audio: '' @ stderr)),
              remove_if_exists output_path st2))"

text \<open>The time windows of \<^verbatim>\<open>create_chunks\<close> (audio.py, lines 148 to 152).\<close>

definition num_chunks :: "real \<Rightarrow> real \<Rightarrow> real \<Rightarrow> int" where
  "num_chunks duration chunk_duration overlap = \<lceil>duration / (chunk_duration - overlap)\<rceil>"

definition start_time :: "real \<Rightarrow> real \<Rightarrow> nat \<Rightarrow> real" where
  "start_time chunk_duration overlap i = of_nat i * (chunk_duration - overlap)"

definition end_time :: "real \<Rightarrow> real \<Rightarrow> real \<Rightarrow> nat \<Rightarrow> real" where
  "end_time duration chunk_duration overlap i =
     min (start_time chunk_duration overlap i + chunk_duration) duration"

text \<open>The body of the loop \<^verbatim>\<open>for i in range(num_chunks)\<close>, over the indices left.\<close>

fun create_chunks_loop ::
  "env \<Rightarrow> path \<Rightarrow> real \<Rightarrow> real \<Rightarrow> real \<Rightarrow> nat list \<Rightarrow> path list \<Rightarrow> state
   \<Rightarrow> path list \<times> state" where
  "create_chunks_loop e audio_path d cd ov [] chunks st = (chunks, st)"
| "create_chunks_loop e audio_path d cd ov (i # rest) chunks st =
     (let start_t = start_time cd ov i;
          end_t = end_time d cd ov i;
          (chunk_path, st1) = named_temporary_file (''_chunk_'' @ show_nat i @ ''.wav'') st;
          st2 = emit (Cut audio_path start_t (end_t - start_t) chunk_path) st1
      in if env_cut e audio_path start_t (end_t - start_t)
         then create_chunks_loop e audio_path d cd ov rest (chunks @ [chunk_path]) st2
         else create_chunks_loop e audio_path d cd ov rest chunks
                (remove_if_exists chunk_path st2))"

definition create_chunks ::
  "env \<Rightarrow> path \<Rightarrow> real \<Rightarrow> real \<Rightarrow> state \<Rightarrow> (error + path list) \<times> state" where
  "create_chunks e audio_path chunk_duration overlap st =
     (let (duration, st1) = get_duration e audio_path st
      in case duration of
           None \<Rightarrow> (Inr [audio_path], st1)
         | Some d \<Rightarrow>
             if d = 0 then (Inr [audio_path], st1)
             else if chunk_duration - overlap = 0 then (Inl ZeroDivisionError, st1)
             else (let (chunks, st2) =
                         create_chunks_loop e audio_path d chunk_duration overlap
                           [0..<nat (num_chunks d chunk_duration overlap)] [] st1
                   in (Inr chunks, st2)))"

section \<open>core.py: Transcriptor\<close>

definition MAX_FILE_SIZE_MB :: real where
  "MAX_FILE_SIZE_MB = 25"

definition build_request ::
  "transcriptor \<Rightarrow> path \<Rightarrow> string \<Rightarrow> string \<Rightarrow> string \<Rightarrow> string \<Rightarrow> request" where
  "build_request tr filepath language model prompt fmt =
     \<lparr>req_file = filepath, req_model = model, req_format = fmt,
      req_language = (if language \<noteq> [] \<and> language \<noteq> ''auto'' then Some language else None),
      req_prompt = (if prompt \<noteq> [] then Some prompt else None),
      req_authorization = ''Bearer '' @ api_key tr\<rparr>"

definition api_error_message :: "response \<Rightarrow> string" where
  "api_error_message resp =
     ''Error de API Groq: '' @ show_int (status_code resp) @ '' - '' @ response_text resp"

definition returned_text :: "string \<Rightarrow> response \<Rightarrow> string" where
  "returned_text fmt resp = (if fmt = ''verbose_json'' then json_verbose resp else json_text resp)"

definition call_api ::
  "transcriptor \<Rightarrow> env \<Rightarrow> path \<Rightarrow> string \<Rightarrow> string \<Rightarrow> string \<Rightarrow> string \<Rightarrow> state
   \<Rightarrow> (error + string) \<times> state" where
  "call_api tr e filepath language model prompt fmt st =
     (if filepath \<notin> files st then (Inl (FileNotFoundError filepath), st)
      else
        (let req = build_request tr filepath language model prompt fmt;
             st1 = emit (Post req) st
         in case env_post e req of
              RequestFailed msg \<Rightarrow> (Inl (RequestException msg), st1)
            | Responded resp \<Rightarrow>
                if status_code resp = 200 then (Inr (returned_text fmt resp), st1)
                else (Inl (Exception (api_error_message resp)), st1)))"

text \<open>The loop \<^verbatim>\<open>for i, chunk_path in enumerate(chunks, 1)\<close> of \<^verbatim>\<open>_transcribir_chunks\<close>.\<close>

fun transcribe_loop ::
  "transcriptor \<Rightarrow> env \<Rightarrow> string \<Rightarrow> string \<Rightarrow> string \<Rightarrow> string \<Rightarrow> path list
   \<Rightarrow> string list \<Rightarrow> state \<Rightarrow> (error + string list) \<times> state" where
  "transcribe_loop tr e language model prompt fmt [] texts st = (Inr texts, st)"
| "transcribe_loop tr e language model prompt fmt (chunk_path # rest) texts st =
     (case call_api tr e chunk_path language model prompt fmt st of
        (Inl err, st1) \<Rightarrow> (Inl err, st1)
      | (Inr t, st1) \<Rightarrow>
          transcribe_loop tr e language model prompt fmt rest (texts @ [t])
            (remove_if_exists chunk_path st1))"

definition transcribir_chunks ::
  "transcriptor \<Rightarrow> env \<Rightarrow> path \<Rightarrow> real option \<Rightarrow> string \<Rightarrow> string \<Rightarrow> string \<Rightarrow> string
   \<Rightarrow> state \<Rightarrow> (error + result) \<times> state" where
  "transcribir_chunks tr e audio_path duration language model prompt fmt st =
     (case create_chunks e audio_path (4 * 60) 15 st of
        (Inl err, st1) \<Rightarrow> (Inl err, st1)
      | (Inr chunks, st1) \<Rightarrow>
          (case transcribe_loop tr e language model prompt fmt chunks [] st1 of
             (Inl err, st2) \<Rightarrow> (Inl err, st2)
           | (Inr texts, st2) \<Rightarrow>
               (Inr \<lparr>res_text = join [CHR 0x0A, CHR 0x0A] texts, res_language = language,
                     res_duration = duration, res_success = True, res_model = model,
                     res_chunks = length chunks\<rparr>, st2)))"

text \<open>Lines 88 to 93 of \<^verbatim>\<open>_transcribir_archivo\<close>: the audio the rest of the call works on.\<close>

definition resolve_audio :: "env \<Rightarrow> path \<Rightarrow> state \<Rightarrow> (error + path) \<times> state" where
  "resolve_audio e filepath st =
     (if is_video filepath then extract_audio e filepath st else (Inr filepath, st))"

definition size_mb :: "env \<Rightarrow> path \<Rightarrow> real" where
  "size_mb e audio_path = of_nat (env_size e audio_path) / (1024 * 1024)"

definition transcribir_archivo ::
  "transcriptor \<Rightarrow> env \<Rightarrow> path \<Rightarrow> string \<Rightarrow> string \<Rightarrow> string \<Rightarrow> string \<Rightarrow> bool \<Rightarrow> state
   \<Rightarrow> (error + result) \<times> state" where
  "transcribir_archivo tr e filepath language model prompt fmt chunk_if_needed st =
     (case resolve_audio e filepath st of
        (Inl err, st1) \<Rightarrow> (Inl err, st1)
      | (Inr audio_path, st1) \<Rightarrow>
          (let (duration, st2) = get_duration e audio_path st1
           in if audio_path \<notin> files st2 then (Inl (FileNotFoundError audio_path), st2)
              else if MAX_FILE_SIZE_MB < size_mb e audio_path \<and> chunk_if_needed
              then transcribir_chunks tr e audio_path duration language model prompt fmt st2
              else (case call_api tr e audio_path language model prompt fmt st2 of
                      (Inl err, st3) \<Rightarrow> (Inl err, st3)
                    | (Inr t, st3) \<Rightarrow>
                        (Inr \<lparr>res_text = t, res_language = language,
                              res_duration = duration, res_success = True,
                              res_model = model, res_chunks = 1\<rparr>, st3))))"

definition transcribir_fileobject ::
  "transcriptor \<Rightarrow> env \<Rightarrow> fileobj \<Rightarrow> string \<Rightarrow> string \<Rightarrow> string \<Rightarrow> string \<Rightarrow> state
   \<Rightarrow> (error + result) \<times> state" where
  "transcribir_fileobject tr e fobj language model prompt fmt st =
     (let (tmp_path, st1) = named_temporary_file ''.tmp'' st
      in case fobj of
           Unsupported \<Rightarrow> (Inl (ValueError ''Tipo de archivo no soportado''), st1)
         | _ \<Rightarrow>
             (let (r, st2) =
                    transcribir_archivo tr e tmp_path language model prompt fmt True st1
              in (r, remove_if_exists tmp_path st2)))"

definition transcribir ::
  "transcriptor \<Rightarrow> env \<Rightarrow> source \<Rightarrow> string \<Rightarrow> string option \<Rightarrow> string \<Rightarrow> string \<Rightarrow> bool
   \<Rightarrow> state \<Rightarrow> (error + result) \<times> state" where
  "transcribir tr e archivo language model prompt fmt chunk_if_needed st =
     (let m = (case model of None \<Rightarrow> default_model tr
               | Some s \<Rightarrow> if s = [] then default_model tr else s)
      in case archivo of
           PathStr filepath \<Rightarrow>
             if filepath \<notin> files st then (Inl (FileNotFoundError filepath), st)
             else transcribir_archivo tr e filepath language m prompt fmt chunk_if_needed st
         | FileObject fobj \<Rightarrow> transcribir_fileobject tr e fobj language m prompt fmt st)"

definition transcribir_url ::
  "transcriptor \<Rightarrow> env \<Rightarrow> string \<Rightarrow> string \<Rightarrow> string option \<Rightarrow> string \<Rightarrow> state
   \<Rightarrow> (error + result) \<times> state" where
  "transcribir_url tr e url language model prompt st =
     (let (tmp_path, st1) = named_temporary_file ''.tmp'' st;
          st2 = emit (Download url tmp_path) st1
      in if \<not> env_download e url then (Inl (URLError url), st2)
         else (let (r, st3) =
                     transcribir tr e (PathStr tmp_path) language model prompt ''json'' True st2
               in (r, remove_if_exists tmp_path st3)))"

section \<open>Observations on a run\<close>

definition chunk_windows :: "real \<Rightarrow> real \<Rightarrow> real \<Rightarrow> (real \<times> real) list" where
  "chunk_windows d cd ov =
     map (\<lambda>i. (start_time cd ov i, end_time d cd ov i)) [0..<nat (num_chunks d cd ov)]"

fun posts_of :: "event list \<Rightarrow> request list" where
  "posts_of [] = []"
| "posts_of (Post r # es) = r # posts_of es"
| "posts_of (_ # es) = posts_of es"

fun cuts_of :: "event list \<Rightarrow> (real \<times> real) list" where
  "cuts_of [] = []"
| "cuts_of (Cut src s len dst # es) = (s, s + len) # cuts_of es"
| "cuts_of (_ # es) = cuts_of es"

definition events_since :: "state \<Rightarrow> state \<Rightarrow> event list" where
  "events_since st st' = drop (length (trace st)) (trace st')"

text \<open>The text that \<^verbatim>\<open>_call_api\<close> returns for a chunk the service answers with 200.\<close>

definition chunk_text ::
  "transcriptor \<Rightarrow> env \<Rightarrow> string \<Rightarrow> string \<Rightarrow> string \<Rightarrow> string \<Rightarrow> path \<Rightarrow> string" where
  "chunk_text tr e language model prompt fmt chunk_path =
     (case env_post e (build_request tr chunk_path language model prompt fmt) of
        Responded resp \<Rightarrow> returned_text fmt resp
      | RequestFailed msg \<Rightarrow> [])"

text \<open>
  What holds of the chunk files while \<^verbatim>\<open>create_chunks\<close> runs: they are distinct temporary
  files that exist.
\<close>

definition chunks_inv :: "path list \<Rightarrow> state \<Rightarrow> bool" where
  "chunks_inv chunks st \<longleftrightarrow>
     distinct chunks \<and> set chunks \<subseteq> files st
     \<and> (\<forall>c \<in> set chunks. \<exists>n suf. c = TempFile n suf \<and> n < next_tmp st)"

text \<open>The merging law in the words of the specification: \<open>t1 + sep + t2 + ... + sep + tN\<close>.\<close>

definition merged_text :: "string list \<Rightarrow> string" where
  "merged_text ts =
     (case ts of [] \<Rightarrow> []
      | t # rest \<Rightarrow> foldl (\<lambda>acc u. acc @ [CHR 0x0A, CHR 0x0A] @ u) t rest)"

section \<open>Example runs\<close>

text \<open>
  A transcriptor, a file system holding one audio file and one video, and a family of
  environments: every probe reports \<open>dur\<close>, every file has \<open>bytes\<close> bytes, extraction
  succeeds, the window starting at \<open>s\<close> can be cut when \<open>cut_ok s\<close>, and the service
  answers the upload of a file with the status \<open>status\<close> gives it and a text naming the file.
\<close>

definition example_transcriptor :: transcriptor where
  "example_transcriptor = \<lparr>api_key = ''gsk'', default_model = ''whisper-large-v3-turbo''\<rparr>"

fun path_label :: "path \<Rightarrow> string" where
  "path_label (NamedPath s) = s"
| "path_label (TempFile n suf) = suf"

definition example_env :: "real option \<Rightarrow> nat \<Rightarrow> (real \<Rightarrow> bool) \<Rightarrow> (path \<Rightarrow> int) \<Rightarrow> env" where
  "example_env dur bytes cut_ok status =
     \<lparr>env_probe = (\<lambda>_. dur), env_size = (\<lambda>_. bytes), env_extract = (\<lambda>_. None),
      env_cut = (\<lambda>_ s _. cut_ok s),
      env_post = (\<lambda>r. Responded \<lparr>status_code = status (req_file r),
                                    response_text = ''slow down'',
                                    json_text = path_label (req_file r),
                                    json_verbose = []\<rparr>),
      env_download = (\<lambda>_. True)\<rparr>"

definition example_state :: state where
  "example_state =
     \<lparr>files = {NamedPath ''talk.mp3'', NamedPath ''clip.mp4''}, next_tmp = 0, trace = []\<rparr>"

definition thirty_mb :: nat where
  "thirty_mb = 30 * 1024 * 1024"

definition ten_mb :: nat where
  "ten_mb = 10 * 1024 * 1024"

section \<open>The chunk plan\<close>

lemma num_chunks_pos:
  assumes "0 < d" "ov < cd"
  shows "0 < num_chunks d cd ov"
  using assms by (simp add: num_chunks_def)

lemma last_start_lt:
  assumes "0 < d" "ov < cd" "int i < num_chunks d cd ov"
  shows "start_time cd ov i < d"
proof -
  have "real i \<le> real_of_int (num_chunks d cd ov) - 1"
    using assms(3) by linarith
  also have "\<dots> < d / (cd - ov)"
    unfolding num_chunks_def by linarith
  finally have "real i * (cd - ov) < d"
    using assms(2) by (simp add: pos_less_divide_eq)
  then show ?thesis by (simp add: start_time_def)
qed

lemma cover_ge:
  assumes "ov < cd"
  shows "d \<le> real_of_int (num_chunks d cd ov) * (cd - ov)"
proof -
  have "d / (cd - ov) \<le> real_of_int (num_chunks d cd ov)"
    unfolding num_chunks_def by linarith
  then show ?thesis using assms by (simp add: pos_divide_le_eq)
qed

lemma length_chunk_windows: "length (chunk_windows d cd ov) = nat (num_chunks d cd ov)"
  by (simp add: chunk_windows_def)

lemma nth_chunk_windows:
  "i < nat (num_chunks d cd ov) \<Longrightarrow>
   chunk_windows d cd ov ! i = (start_time cd ov i, end_time d cd ov i)"
  by (simp add: chunk_windows_def)

lemma final_end_time:
  assumes "0 < d" "0 \<le> ov" "ov < cd" "int (Suc i) = num_chunks d cd ov"
  shows "end_time d cd ov i = d"
proof -
  have "d \<le> real (Suc i) * (cd - ov)"
    using cover_ge [OF assms(3), of d] assms(4) by (metis of_int_of_nat_eq)
  then have "d \<le> real i * (cd - ov) + cd"
    using assms(2) by (simp add: algebra_simps)
  then show ?thesis by (simp add: end_time_def start_time_def)
qed

text \<open>
  C2: for a duration above zero and a window longer than the overlap, the loop of
  \<^verbatim>\<open>create_chunks\<close> plans exactly \<open>ceil(duration / (window - overlap))\<close> windows;
  window \<open>i\<close> starts at \<open>i * (window - overlap)\<close> and ends at
  \<open>min(start + window, duration)\<close>; the last window ends at the duration exactly, and
  every window has \<open>start < end \<le> duration\<close>.
\<close>

theorem chunk_plan_shape:
  assumes "0 < d" and "0 \<le> ov" and "ov < cd"
  shows "length (chunk_windows d cd ov) = nat \<lceil>d / (cd - ov)\<rceil>
       \<and> chunk_windows d cd ov \<noteq> []
       \<and> (\<forall>i < length (chunk_windows d cd ov).
             chunk_windows d cd ov ! i
               = (real i * (cd - ov), min (real i * (cd - ov) + cd) d))
       \<and> snd (last (chunk_windows d cd ov)) = d
       \<and> (\<forall>(s, t) \<in> set (chunk_windows d cd ov). s < t \<and> t \<le> d)"
proof -
  let ?n = "nat (num_chunks d cd ov)"
  have npos: "0 < ?n" using num_chunks_pos [OF assms(1,3)] by simp
  have len: "length (chunk_windows d cd ov) = ?n" by (rule length_chunk_windows)
  have c1: "length (chunk_windows d cd ov) = nat \<lceil>d / (cd - ov)\<rceil>"
    by (simp add: len num_chunks_def)
  have c2: "chunk_windows d cd ov \<noteq> []" using npos len by auto
  have c3: "\<forall>i < length (chunk_windows d cd ov).
             chunk_windows d cd ov ! i
               = (real i * (cd - ov), min (real i * (cd - ov) + cd) d)"
    by (simp add: len nth_chunk_windows start_time_def end_time_def)
  have "last (chunk_windows d cd ov) = chunk_windows d cd ov ! (?n - 1)"
    using c2 len by (simp add: last_conv_nth)
  also have "\<dots> = (start_time cd ov (?n - 1), end_time d cd ov (?n - 1))"
    using npos by (simp add: nth_chunk_windows)
  finally have "snd (last (chunk_windows d cd ov)) = end_time d cd ov (?n - 1)" by simp
  moreover have "int (Suc (?n - 1)) = num_chunks d cd ov" using npos by simp
  ultimately have c4: "snd (last (chunk_windows d cd ov)) = d"
    using final_end_time [OF assms] by simp
  have c5: "\<forall>(s, t) \<in> set (chunk_windows d cd ov). s < t \<and> t \<le> d"
  proof -
    have "start_time cd ov i < end_time d cd ov i \<and> end_time d cd ov i \<le> d"
      if "i < ?n" for i
    proof -
      have "start_time cd ov i < d"
        using last_start_lt [OF assms(1,3)] that by simp
      moreover have "0 < cd" using assms by simp
      ultimately show ?thesis by (simp add: end_time_def)
    qed
    then show ?thesis by (auto simp: chunk_windows_def)
  qed
  show ?thesis using c1 c2 c3 c4 c5 by blast
qed

theorem chunk_plan_shape_witness:
  "(0::real) < 600 \<and> (0::real) \<le> 15 \<and> (15::real) < 240
   \<and> chunk_windows 600 240 15 = [(0, 240), (225, 465), (450, 600)]
   \<and> length (chunk_windows 600 240 15) = nat \<lceil>(600::real) / (240 - 15)\<rceil>
   \<and> snd (last (chunk_windows 600 240 15)) = 600"
  using chunk_plan_shape [of 600 15 240]
  by (simp add: chunk_windows_def num_chunks_def start_time_def end_time_def upt_conv_Cons)

text \<open>
  With a window of 4 and an overlap of 3 over a duration of 6 the overlap exceeds the stride:
  windows 3 and 4 (of six) are both cut off at the duration and share 2 seconds, not 3.
\<close>

theorem consecutive_overlap_counterexample:
  "(0::real) < 6 \<and> (0::real) \<le> 3 \<and> (3::real) < 4
   \<and> chunk_windows 6 4 3 = [(0, 4), (1, 5), (2, 6), (3, 6), (4, 6), (5, 6)]
   \<and> snd (chunk_windows 6 4 3 ! 3) - fst (chunk_windows 6 4 3 ! 4) = 2
   \<and> snd (chunk_windows 6 4 3 ! 3) - fst (chunk_windows 6 4 3 ! 4) \<noteq> 3"
  by (simp add: chunk_windows_def num_chunks_def start_time_def end_time_def upt_conv_Cons)

text \<open>
  C3, as amended: when the overlap is at most the stride \<open>window - overlap\<close>, two
  consecutive windows that are both before the last one share exactly \<open>overlap\<close> seconds;
  the last pair shares at most \<open>overlap\<close> seconds, and the last window ends at the
  duration.
\<close>

theorem consecutive_overlap:
  assumes "0 < d" and "0 \<le> ov" and "ov < cd" and "ov \<le> cd - ov"
    and "Suc i < length (chunk_windows d cd ov)"
  shows "(Suc (Suc i) < length (chunk_windows d cd ov) \<longrightarrow>
            snd (chunk_windows d cd ov ! i) - fst (chunk_windows d cd ov ! Suc i) = ov)
       \<and> (Suc (Suc i) = length (chunk_windows d cd ov) \<longrightarrow>
            snd (chunk_windows d cd ov ! i) - fst (chunk_windows d cd ov ! Suc i) \<le> ov
            \<and> snd (chunk_windows d cd ov ! Suc i) = d)"
proof -
  let ?n = "nat (num_chunks d cd ov)"
  have len: "length (chunk_windows d cd ov) = ?n" by (rule length_chunk_windows)
  have i1: "Suc i < ?n" using assms(5) len by simp
  have diff: "snd (chunk_windows d cd ov ! i) - fst (chunk_windows d cd ov ! Suc i)
              = end_time d cd ov i - start_time cd ov (Suc i)"
    using i1 by (simp add: nth_chunk_windows)
  have inner: "end_time d cd ov i - start_time cd ov (Suc i) = ov" if "Suc (Suc i) < ?n"
  proof -
    have "start_time cd ov (Suc (Suc i)) < d"
      using last_start_lt [OF assms(1,3), of "Suc (Suc i)"] that by simp
    then have "real i * (cd - ov) + 2 * (cd - ov) < d"
      by (simp add: start_time_def algebra_simps)
    moreover have "cd \<le> 2 * (cd - ov)" using assms(4) by simp
    ultimately have "real i * (cd - ov) + cd \<le> d" by linarith
    then have "end_time d cd ov i = real i * (cd - ov) + cd"
      by (simp add: end_time_def start_time_def)
    then show ?thesis by (simp add: start_time_def algebra_simps)
  qed
  have upper: "end_time d cd ov i - start_time cd ov (Suc i) \<le> ov"
    by (simp add: end_time_def start_time_def algebra_simps)
  have fin: "snd (chunk_windows d cd ov ! Suc i) = d" if "Suc (Suc i) = ?n"
  proof -
    have "int (Suc (Suc i)) = num_chunks d cd ov" using that by linarith
    then have "end_time d cd ov (Suc i) = d" by (rule final_end_time [OF assms(1,2,3)])
    then show ?thesis using i1 by (simp add: nth_chunk_windows)
  qed
  show ?thesis using diff inner upper fin len by simp
qed

theorem consecutive_overlap_witness:
  "(0::real) < 600 \<and> (0::real) \<le> 15 \<and> (15::real) < 240 \<and> (15::real) \<le> 240 - 15
   \<and> length (chunk_windows 600 240 15) = 3
   \<and> snd (chunk_windows 600 240 15 ! 0) - fst (chunk_windows 600 240 15 ! Suc 0) = 15
   \<and> snd (chunk_windows 600 240 15 ! Suc 0) - fst (chunk_windows 600 240 15 ! Suc (Suc 0)) \<le> 15
   \<and> snd (chunk_windows 600 240 15 ! Suc (Suc 0)) = 600"
proof -
  have len: "length (chunk_windows 600 240 15) = 3"
    by (simp add: chunk_windows_def num_chunks_def)
  have h: "(0::real) < 600" "(0::real) \<le> 15" "(15::real) < 240" "(15::real) \<le> 240 - 15"
    by simp_all
  show ?thesis
    using consecutive_overlap [OF h, of 0] consecutive_overlap [OF h, of "Suc 0"] len
    by simp
qed


section \<open>State bookkeeping\<close>

lemma emit_simps [simp]:
  "files (emit ev st) = files st"
  "next_tmp (emit ev st) = next_tmp st"
  "trace (emit ev st) = trace st @ [ev]"
  by (simp_all add: emit_def)

lemma remove_if_exists_simps [simp]:
  "files (remove_if_exists p st) = files st - {p}"
  "next_tmp (remove_if_exists p st) = next_tmp st"
  "trace (remove_if_exists p st) = trace st"
  by (simp_all add: remove_if_exists_def)

lemma posts_of_append: "posts_of (xs @ ys) = posts_of xs @ posts_of ys"
  by (induction xs rule: posts_of.induct) simp_all

lemma cuts_of_append: "cuts_of (xs @ ys) = cuts_of xs @ cuts_of ys"
  by (induction xs rule: cuts_of.induct) simp_all

lemma posts_of_map_Post: "posts_of (map Post rs) = rs"
  by (induction rs) simp_all

lemma cuts_of_map_Post: "cuts_of (map Post rs) = []"
  by (induction rs) simp_all

lemma events_sinceI: "trace st' = trace st @ evs \<Longrightarrow> events_since st st' = evs"
  by (simp add: events_since_def)

section \<open>One call to the service\<close>

lemma call_api_Inr:
  assumes "call_api tr e fp l m p f st = (Inr t, st1)"
  shows "fp \<in> files st
       \<and> (\<exists>resp. env_post e (build_request tr fp l m p f) = Responded resp
              \<and> status_code resp = 200 \<and> t = returned_text f resp)
       \<and> st1 = emit (Post (build_request tr fp l m p f)) st"
  using assms
  by (auto simp: call_api_def Let_def split: if_splits http_outcome.splits)

lemma call_api_200:
  assumes "fp \<in> files st"
    and "env_post e (build_request tr fp l m p f) = Responded resp"
    and "status_code resp = 200"
  shows "call_api tr e fp l m p f st
         = (Inr (returned_text f resp), emit (Post (build_request tr fp l m p f)) st)"
  using assms by (simp add: call_api_def Let_def)

lemma call_api_not_200:
  assumes "fp \<in> files st"
    and "env_post e (build_request tr fp l m p f) = Responded resp"
    and "status_code resp \<noteq> 200"
  shows "call_api tr e fp l m p f st
         = (Inl (Exception (api_error_message resp)),
            emit (Post (build_request tr fp l m p f)) st)"
  using assms by (simp add: call_api_def Let_def)

lemma call_api_exists:
  assumes "fp \<in> files st"
  shows "snd (call_api tr e fp l m p f st) = emit (Post (build_request tr fp l m p f)) st"
  using assms by (simp add: call_api_def Let_def split: http_outcome.splits)

section \<open>The transcription loop\<close>

lemma transcribe_loop_Inr:
  assumes "transcribe_loop tr e l m p f cs texts st = (Inr ts, st')"
  shows "ts = texts @ map (chunk_text tr e l m p f) cs
       \<and> trace st' = trace st @ map (\<lambda>c. Post (build_request tr c l m p f)) cs
       \<and> files st' = files st - set cs
       \<and> next_tmp st' = next_tmp st"
  using assms
proof (induction cs arbitrary: texts st)
  case Nil
  then show ?case by simp
next
  case (Cons c cs)
  from Cons.prems obtain t st1 where
    call: "call_api tr e c l m p f st = (Inr t, st1)"
    and rest: "transcribe_loop tr e l m p f cs (texts @ [t]) (remove_if_exists c st1)
               = (Inr ts, st')"
    by (auto split: prod.splits sum.splits)
  from call_api_Inr [OF call] obtain resp where
    post: "env_post e (build_request tr c l m p f) = Responded resp"
    and t: "t = returned_text f resp"
    and st1: "st1 = emit (Post (build_request tr c l m p f)) st"
    by blast
  have ct: "chunk_text tr e l m p f c = t" by (simp add: chunk_text_def post t)
  from Cons.IH [OF rest] show ?case by (auto simp: st1 ct)
qed

lemma transcribe_loop_abort:
  assumes "distinct (pre @ [c])" and "set (pre @ [c]) \<subseteq> files st"
    and "\<forall>q \<in> set pre. \<exists>r. env_post e (build_request tr q l m p f) = Responded r
                              \<and> status_code r = 200"
    and "env_post e (build_request tr c l m p f) = Responded resp"
    and "status_code resp \<noteq> 200"
  shows "\<exists>st'. transcribe_loop tr e l m p f (pre @ c # rest) texts st
               = (Inl (Exception (api_error_message resp)), st')
             \<and> trace st' = trace st @ map (\<lambda>c. Post (build_request tr c l m p f)) (pre @ [c])
             \<and> files st' = files st - set pre"
  using assms(1,2,3)
proof (induction pre arbitrary: texts st)
  case Nil
  then have "c \<in> files st" by simp
  from call_api_not_200 [OF this assms(4,5)] show ?case by simp
next
  case (Cons q pre)
  from Cons.prems obtain r where
    post: "env_post e (build_request tr q l m p f) = Responded r" and ok: "status_code r = 200"
    by auto
  have "q \<in> files st" using Cons.prems by simp
  note call = call_api_200 [OF this post ok]
  let ?st1 = "remove_if_exists q (emit (Post (build_request tr q l m p f)) st)"
  have d: "distinct (pre @ [c])" using Cons.prems by simp
  have s: "set (pre @ [c]) \<subseteq> files ?st1" using Cons.prems by auto
  have a: "\<forall>q \<in> set pre. \<exists>r. env_post e (build_request tr q l m p f) = Responded r
                              \<and> status_code r = 200"
    using Cons.prems by simp
  from Cons.IH [OF d s a, of "texts @ [returned_text f r]"] obtain st' where
    "transcribe_loop tr e l m p f (pre @ c # rest) (texts @ [returned_text f r]) ?st1
       = (Inl (Exception (api_error_message resp)), st')"
    "trace st' = trace ?st1 @ map (\<lambda>c. Post (build_request tr c l m p f)) (pre @ [c])"
    "files st' = files ?st1 - set pre"
    by blast
  then show ?case using call by auto
qed

section \<open>Cutting the windows\<close>

lemma create_chunks_loop_length:
  "length (fst (create_chunks_loop e ap d cd ov idx chunks st))
   = length chunks
     + length (filter (\<lambda>i. env_cut e ap (start_time cd ov i)
                               (end_time d cd ov i - start_time cd ov i)) idx)"
  by (induction idx arbitrary: chunks st)
     (simp_all add: Let_def named_temporary_file_def split: prod.splits)

lemma create_chunks_loop_trace:
  "\<exists>evs. trace (snd (create_chunks_loop e ap d cd ov idx chunks st)) = trace st @ evs
        \<and> posts_of evs = []
        \<and> cuts_of evs = map (\<lambda>i. (start_time cd ov i, end_time d cd ov i)) idx"
proof (induction idx arbitrary: chunks st)
  case Nil
  then show ?case by simp
next
  case (Cons i idx)
  let ?c = "TempFile (next_tmp st) (''_chunk_'' @ show_nat i @ ''.wav'')"
  let ?ev = "Cut ap (start_time cd ov i) (end_time d cd ov i - start_time cd ov i) ?c"
  let ?st2 = "emit ?ev (snd (named_temporary_file (''_chunk_'' @ show_nat i @ ''.wav'') st))"
  show ?case
  proof (cases "env_cut e ap (start_time cd ov i) (end_time d cd ov i - start_time cd ov i)")
    case True
    from Cons.IH [of "chunks @ [?c]" ?st2] obtain evs where
      "trace (snd (create_chunks_loop e ap d cd ov idx (chunks @ [?c]) ?st2)) = trace ?st2 @ evs"
      "posts_of evs = []"
      "cuts_of evs = map (\<lambda>i. (start_time cd ov i, end_time d cd ov i)) idx"
      by blast
    then show ?thesis using True
      by (intro exI [of _ "?ev # evs"]) (simp add: Let_def named_temporary_file_def)
  next
    case False
    from Cons.IH [of chunks "remove_if_exists ?c ?st2"] obtain evs where
      "trace (snd (create_chunks_loop e ap d cd ov idx chunks (remove_if_exists ?c ?st2)))
         = trace (remove_if_exists ?c ?st2) @ evs"
      "posts_of evs = []"
      "cuts_of evs = map (\<lambda>i. (start_time cd ov i, end_time d cd ov i)) idx"
      by blast
    then show ?thesis using False
      by (intro exI [of _ "?ev # evs"]) (simp add: Let_def named_temporary_file_def)
  qed
qed

lemma create_chunks_loop_inv:
  assumes "chunks_inv chunks st"
  shows "chunks_inv (fst (create_chunks_loop e ap d cd ov idx chunks st))
                    (snd (create_chunks_loop e ap d cd ov idx chunks st))"
  using assms
proof (induction idx arbitrary: chunks st)
  case Nil
  then show ?case by simp
next
  case (Cons i idx)
  let ?c = "TempFile (next_tmp st) (''_chunk_'' @ show_nat i @ ''.wav'')"
  let ?ev = "Cut ap (start_time cd ov i) (end_time d cd ov i - start_time cd ov i) ?c"
  let ?st2 = "emit ?ev (snd (named_temporary_file (''_chunk_'' @ show_nat i @ ''.wav'') st))"
  have fresh: "?c \<notin> set chunks" using Cons.prems by (auto simp: chunks_inv_def)
  have a: "chunks_inv (chunks @ [?c]) ?st2"
    using Cons.prems fresh
    by (auto simp: chunks_inv_def named_temporary_file_def less_Suc_eq)
  have b: "chunks_inv chunks (remove_if_exists ?c ?st2)"
    using Cons.prems fresh
    by (auto simp: chunks_inv_def named_temporary_file_def less_Suc_eq)
  show ?case
    using Cons.IH [OF a] Cons.IH [OF b]
    by (simp add: Let_def named_temporary_file_def)
qed


section \<open>create_chunks\<close>

lemma create_chunks_unknown:
  assumes "env_probe e ap = None"
  shows "create_chunks e ap cd ov st = (Inr [ap], emit (Probe ap) st)"
  using assms by (simp add: create_chunks_def get_duration_def)

lemma create_chunks_known:
  assumes "env_probe e ap = Some d" and "d \<noteq> 0" and "cd - ov \<noteq> 0"
  shows "create_chunks e ap cd ov st
         = (Inr (fst (create_chunks_loop e ap d cd ov [0..<nat (num_chunks d cd ov)] []
                        (emit (Probe ap) st))),
            snd (create_chunks_loop e ap d cd ov [0..<nat (num_chunks d cd ov)] []
                   (emit (Probe ap) st)))"
  using assms by (simp add: create_chunks_def get_duration_def split: prod.splits)

lemma create_chunks_known_facts:
  assumes "env_probe e ap = Some d" and "d \<noteq> 0" and "cd - ov \<noteq> 0"
    and "create_chunks e ap cd ov st = (r, st1)"
  shows "\<exists>cs evs. r = Inr cs
           \<and> length cs = length (filter (\<lambda>(s, t). env_cut e ap s (t - s)) (chunk_windows d cd ov))
           \<and> trace st1 = trace st @ Probe ap # evs
           \<and> posts_of evs = [] \<and> cuts_of evs = chunk_windows d cd ov
           \<and> chunks_inv cs st1"
proof -
  let ?L = "create_chunks_loop e ap d cd ov [0..<nat (num_chunks d cd ov)] []
              (emit (Probe ap) st)"
  have r: "r = Inr (fst ?L)" and st1: "st1 = snd ?L"
    using create_chunks_known [OF assms(1,2,3), of st] assms(4) by simp_all
  have len: "length (fst ?L)
             = length (filter (\<lambda>(s, t). env_cut e ap s (t - s)) (chunk_windows d cd ov))"
    by (simp add: create_chunks_loop_length chunk_windows_def filter_map comp_def)
  obtain evs where evs: "trace (snd ?L) = trace (emit (Probe ap) st) @ evs"
    "posts_of evs = []"
    "cuts_of evs = map (\<lambda>i. (start_time cd ov i, end_time d cd ov i))
                     [0..<nat (num_chunks d cd ov)]"
    using create_chunks_loop_trace by blast
  have inv: "chunks_inv (fst ?L) (snd ?L)"
    by (rule create_chunks_loop_inv) (simp add: chunks_inv_def)
  show ?thesis
    using r st1 len evs inv by (simp add: chunk_windows_def)
qed

lemma create_chunks_Inr_cases:
  assumes "create_chunks e ap cd ov st = (Inr cs, st1)"
  shows "((env_probe e ap = None \<or> env_probe e ap = Some 0) \<and> cs = [ap]
           \<and> st1 = emit (Probe ap) st)
       \<or> (\<exists>d. env_probe e ap = Some d \<and> d \<noteq> 0 \<and> cd - ov \<noteq> 0)"
  using assms
  by (auto simp: create_chunks_def get_duration_def split: option.splits if_splits)

section \<open>The chunked path\<close>

lemma transcribir_chunks_Inr:
  assumes "transcribir_chunks tr e ap dur l m p f st = (Inr res, st')"
  shows "\<exists>cs st1. create_chunks e ap (4 * 60) 15 st = (Inr cs, st1)
           \<and> res = \<lparr>res_text = join [CHR 0x0A, CHR 0x0A] (map (chunk_text tr e l m p f) cs),
                     res_language = l, res_duration = dur, res_success = True,
                     res_model = m, res_chunks = length cs\<rparr>
           \<and> trace st' = trace st1 @ map (\<lambda>c. Post (build_request tr c l m p f)) cs
           \<and> files st' = files st1 - set cs
           \<and> next_tmp st' = next_tmp st1"
proof -
  from assms obtain cs st1 ts where
    cc: "create_chunks e ap (4 * 60) 15 st = (Inr cs, st1)"
    and tl: "transcribe_loop tr e l m p f cs [] st1 = (Inr ts, st')"
    and res: "res = \<lparr>res_text = join [CHR 0x0A, CHR 0x0A] ts,
                     res_language = l, res_duration = dur, res_success = True,
                     res_model = m, res_chunks = length cs\<rparr>"
    by (auto simp: transcribir_chunks_def split: prod.splits sum.splits)
  from transcribe_loop_Inr [OF tl] cc res show ?thesis by simp
qed

section \<open>The orchestration of one file\<close>

lemma resolve_audio_exists:
  assumes "fp \<in> files st" and "resolve_audio e fp st = (Inr ap, st1)"
  shows "ap \<in> files st1"
  using assms
  by (auto simp: resolve_audio_def extract_audio_def named_temporary_file_def Let_def
           split: if_splits option.splits)

lemma transcribir_archivo_unfold:
  assumes "resolve_audio e fp st = (Inr ap, st1)"
  shows "transcribir_archivo tr e fp l m p f c st
         = (if ap \<notin> files st1 then (Inl (FileNotFoundError ap), emit (Probe ap) st1)
            else if MAX_FILE_SIZE_MB < size_mb e ap \<and> c
            then transcribir_chunks tr e ap (env_probe e ap) l m p f (emit (Probe ap) st1)
            else (case call_api tr e ap l m p f (emit (Probe ap) st1) of
                    (Inl err, st3) \<Rightarrow> (Inl err, st3)
                  | (Inr t, st3) \<Rightarrow>
                      (Inr \<lparr>res_text = t, res_language = l,
                            res_duration = env_probe e ap, res_success = True,
                            res_model = m, res_chunks = 1\<rparr>, st3)))"
  using assms by (simp add: transcribir_archivo_def get_duration_def)

lemma join_merged_text: "join [CHR 0x0A, CHR 0x0A] ts = merged_text ts"
proof -
  have aux: "foldl (\<lambda>acc u. acc @ sep @ u) (a @ t) rest
             = a @ foldl (\<lambda>acc u. acc @ sep @ u) t rest" for sep a t and rest :: "string list"
    by (induction rest arbitrary: t) simp_all
  have "join sep (t # rest) = foldl (\<lambda>acc u. acc @ sep @ u) t rest"
    for sep t and rest :: "string list"
  proof (induction rest arbitrary: t)
    case Nil
    then show ?case by simp
  next
    case (Cons u rest)
    have "join sep (t # u # rest) = t @ sep @ join sep (u # rest)" by simp
    also have "\<dots> = t @ sep @ foldl (\<lambda>acc u. acc @ sep @ u) u rest"
      by (simp add: Cons.IH)
    also have "\<dots> = foldl (\<lambda>acc u. acc @ sep @ u) ((t @ sep) @ u) rest"
      by (simp only: aux append_assoc)
    finally show ?case by simp
  qed
  then show ?thesis by (cases ts) (simp_all add: merged_text_def)
qed


text \<open>
  C7: when the audio (the file itself, or what was extracted from a video) has at most
  25 MB, \<^verbatim>\<open>_transcribir_archivo\<close> probes the duration once and uploads the whole audio once:
  \<^verbatim>\<open>create_chunks\<close> is not called (it would probe again), nothing is cut, and every result
  returned has \<^verbatim>\<open>chunks == 1\<close>; a result is returned whenever the service answers 200.
\<close>

theorem direct_path_single_call:
  assumes "fp \<in> files st"
    and "resolve_audio e fp st = (Inr ap, st1)"
    and "size_mb e ap \<le> MAX_FILE_SIZE_MB"
  shows "case transcribir_archivo tr e fp l m p f c st of
           (r, st') \<Rightarrow>
             events_since st1 st' = [Probe ap, Post (build_request tr ap l m p f)]
             \<and> (\<forall>res. r = Inr res \<longrightarrow> res_chunks res = 1)
             \<and> (\<forall>resp. env_post e (build_request tr ap l m p f) = Responded resp
                        \<and> status_code resp = 200 \<longrightarrow>
                   r = Inr \<lparr>res_text = returned_text f resp, res_language = l,
                            res_duration = env_probe e ap, res_success = True,
                            res_model = m, res_chunks = 1\<rparr>)"
proof -
  have ex: "ap \<in> files (emit (Probe ap) st1)"
    using resolve_audio_exists [OF assms(1,2)] by simp
  obtain r0 st3 where call: "call_api tr e ap l m p f (emit (Probe ap) st1) = (r0, st3)"
    by (cases "call_api tr e ap l m p f (emit (Probe ap) st1)")
  have st3: "st3 = emit (Post (build_request tr ap l m p f)) (emit (Probe ap) st1)"
    using call_api_exists [OF ex, of tr e l m p f] call by simp
  have ev: "events_since st1 st3 = [Probe ap, Post (build_request tr ap l m p f)]"
    by (rule events_sinceI) (simp add: st3)
  have ok: "r0 = Inr (returned_text f resp)"
    if "env_post e (build_request tr ap l m p f) = Responded resp" "status_code resp = 200"
    for resp
    using call_api_200 [OF ex that] call by simp
  show ?thesis
    using assms(3) resolve_audio_exists [OF assms(1,2)] call ev ok
    by (cases r0) (auto simp: transcribir_archivo_unfold [OF assms(2)])
qed

text \<open>
  C4, as amended: when the duration probe of the audio fails, no window is cut and no
  segment file is made, whatever the size of the file: exactly one upload is issued, of the
  whole audio, and a result returned counts one chunk and has no duration. Over 25 MB with
  chunking allowed \<^verbatim>\<open>create_chunks\<close> is still entered: it probes the duration a second time
  and returns the audio path itself as the only chunk. Otherwise \<^verbatim>\<open>create_chunks\<close> is not
  called.
\<close>

theorem unknown_duration_single_call:
  assumes "fp \<in> files st"
    and "resolve_audio e fp st = (Inr ap, st1)"
    and "env_probe e ap = None"
  shows "case transcribir_archivo tr e fp l m p f c st of
           (r, st') \<Rightarrow>
             events_since st1 st'
               = (if MAX_FILE_SIZE_MB < size_mb e ap \<and> c
                  then [Probe ap, Probe ap, Post (build_request tr ap l m p f)]
                  else [Probe ap, Post (build_request tr ap l m p f)])
             \<and> next_tmp st' = next_tmp st1
             \<and> (\<forall>res. r = Inr res \<longrightarrow> res_chunks res = 1 \<and> res_duration res = None)
             \<and> (\<forall>resp. env_post e (build_request tr ap l m p f) = Responded resp
                        \<and> status_code resp = 200 \<longrightarrow>
                   r = Inr \<lparr>res_text = returned_text f resp, res_language = l,
                            res_duration = None, res_success = True,
                            res_model = m, res_chunks = 1\<rparr>)
             \<and> (MAX_FILE_SIZE_MB < size_mb e ap \<and> c \<longrightarrow>
                   transcribir_archivo tr e fp l m p f c st
                     = transcribir_chunks tr e ap None l m p f (emit (Probe ap) st1)
                   \<and> create_chunks e ap (4 * 60) 15 (emit (Probe ap) st1)
                     = (Inr [ap], emit (Probe ap) (emit (Probe ap) st1)))"
proof -
  have ex1: "ap \<in> files st1" by (rule resolve_audio_exists [OF assms(1,2)])
  let ?req = "build_request tr ap l m p f"
  show ?thesis
  proof (cases "MAX_FILE_SIZE_MB < size_mb e ap \<and> c")
    case True
    let ?s2 = "emit (Probe ap) (emit (Probe ap) st1)"
    have ex: "ap \<in> files ?s2" using ex1 by simp
    obtain r0 st3 where call: "call_api tr e ap l m p f ?s2 = (r0, st3)"
      by (cases "call_api tr e ap l m p f ?s2")
    have st3: "st3 = emit (Post ?req) ?s2"
      using call_api_exists [OF ex, of tr e l m p f] call by simp
    have ev: "events_since st1 st3 = [Probe ap, Probe ap, Post ?req]"
      by (rule events_sinceI) (simp add: st3)
    have ev': "events_since st1 (remove_if_exists ap st3) = [Probe ap, Probe ap, Post ?req]"
      by (rule events_sinceI) (simp add: st3)
    have ok: "r0 = Inr (returned_text f resp)"
      if "env_post e ?req = Responded resp" "status_code resp = 200" for resp
      using call_api_200 [OF ex that] call by simp
    show ?thesis
      using True ex1 call ev ev' ok assms(3)
      by (cases r0)
         (auto simp: transcribir_archivo_unfold [OF assms(2)] transcribir_chunks_def
                     create_chunks_unknown st3)
  next
    case False
    let ?s2 = "emit (Probe ap) st1"
    have ex: "ap \<in> files ?s2" using ex1 by simp
    obtain r0 st3 where call: "call_api tr e ap l m p f ?s2 = (r0, st3)"
      by (cases "call_api tr e ap l m p f ?s2")
    have st3: "st3 = emit (Post ?req) ?s2"
      using call_api_exists [OF ex, of tr e l m p f] call by simp
    have ev: "events_since st1 st3 = [Probe ap, Post ?req]"
      by (rule events_sinceI) (simp add: st3)
    have ok: "r0 = Inr (returned_text f resp)"
      if "env_post e ?req = Responded resp" "status_code resp = 200" for resp
      using call_api_200 [OF ex that] call by simp
    show ?thesis
      using False ex1 call ev ok assms(3)
      by (cases r0) (auto simp: transcribir_archivo_unfold [OF assms(2)] st3)
  qed
qed

text \<open>
  C10: over 25 MB with chunking allowed and a failed duration probe, \<^verbatim>\<open>create_chunks\<close>
  returns the audio path itself as the only chunk, and the transcription loop removes that
  path after the upload: the call deletes the extracted audio or, for an input that is not a
  video, the caller's own file.
\<close>

theorem unknown_duration_deletes_source:
  assumes "fp \<in> files st"
    and "resolve_audio e fp st = (Inr ap, st1)"
    and "env_probe e ap = None"
    and "MAX_FILE_SIZE_MB < size_mb e ap"
    and "env_post e (build_request tr ap l m p f) = Responded resp"
    and "status_code resp = 200"
  shows "(\<forall>s. fst (create_chunks e ap (4 * 60) 15 s) = Inr [ap])
       \<and> (case transcribir_archivo tr e fp l m p f True st of
            (r, st') \<Rightarrow>
              r = Inr \<lparr>res_text = returned_text f resp, res_language = l,
                       res_duration = None, res_success = True,
                       res_model = m, res_chunks = 1\<rparr>
              \<and> files st' = files st1 - {ap}
              \<and> (\<not> is_video fp \<longrightarrow> fp \<notin> files st'))"
proof -
  have ex1: "ap \<in> files st1" by (rule resolve_audio_exists [OF assms(1,2)])
  let ?s2 = "emit (Probe ap) (emit (Probe ap) st1)"
  have ex: "ap \<in> files ?s2" using ex1 by simp
  note call = call_api_200 [OF ex assms(5,6)]
  have same: "\<not> is_video fp \<Longrightarrow> ap = fp"
    using assms(2) by (simp add: resolve_audio_def)
  show ?thesis
    using ex1 assms(3,4) call same
    by (auto simp: transcribir_archivo_unfold [OF assms(2)] transcribir_chunks_def
                   create_chunks_unknown)
qed


lemma transcribe_loop_Inr_ok:
  assumes "transcribe_loop tr e l m p f cs texts st = (Inr ts, st')"
  shows "\<forall>c \<in> set cs. \<exists>resp. env_post e (build_request tr c l m p f) = Responded resp
                           \<and> status_code resp = 200
                           \<and> chunk_text tr e l m p f c = returned_text f resp"
  using assms
proof (induction cs arbitrary: texts st)
  case Nil
  then show ?case by simp
next
  case (Cons c cs)
  from Cons.prems obtain t st1 where
    call: "call_api tr e c l m p f st = (Inr t, st1)"
    and rest: "transcribe_loop tr e l m p f cs (texts @ [t]) (remove_if_exists c st1)
               = (Inr ts, st')"
    by (auto split: prod.splits sum.splits)
  from call_api_Inr [OF call] obtain resp where
    "env_post e (build_request tr c l m p f) = Responded resp" "status_code resp = 200"
    by blast
  then show ?case using Cons.IH [OF rest] by (simp add: chunk_text_def)
qed

lemma create_chunks_distinct_exist:
  assumes "ap \<in> files st" and "create_chunks e ap cd ov st = (Inr cs, st1)"
  shows "distinct cs \<and> set cs \<subseteq> files st1"
proof -
  from create_chunks_Inr_cases [OF assms(2)] show ?thesis
  proof
    assume "(env_probe e ap = None \<or> env_probe e ap = Some 0) \<and> cs = [ap]
            \<and> st1 = emit (Probe ap) st"
    then show ?thesis using assms(1) by simp
  next
    assume "\<exists>d. env_probe e ap = Some d \<and> d \<noteq> 0 \<and> cd - ov \<noteq> 0"
    then obtain d where d: "env_probe e ap = Some d" "d \<noteq> 0" "cd - ov \<noteq> 0" by blast
    from create_chunks_known_facts [OF d assms(2)] show ?thesis
      by (auto simp: chunks_inv_def)
  qed
qed

lemma chunked_run:
  assumes "resolve_audio e fp st = (Inr ap, st1)"
    and "MAX_FILE_SIZE_MB < size_mb e ap"
    and "transcribir_archivo tr e fp l m p f True st = (Inr res, st')"
  shows "\<exists>cs st2. create_chunks e ap (4 * 60) 15 (emit (Probe ap) st1) = (Inr cs, st2)
           \<and> res_chunks res = length cs
           \<and> trace st' = trace st2 @ map (\<lambda>c. Post (build_request tr c l m p f)) cs"
proof -
  have "transcribir_chunks tr e ap (env_probe e ap) l m p f (emit (Probe ap) st1)
        = (Inr res, st')"
    using assms(2,3) by (simp add: transcribir_archivo_unfold [OF assms(1)] split: if_splits)
  from transcribir_chunks_Inr [OF this] show ?thesis by auto
qed

text \<open>
  C6: on the chunked path (over 25 MB, chunking allowed) the \<^verbatim>\<open>chunks\<close> field of a returned
  result is the number of uploads made. With a known duration every planned window is cut
  exactly once, in order, also after a failed cut, and the count is the number of windows
  whose cut succeeded, not the number planned.
\<close>

theorem chunk_count_counts_materialized:
  assumes "resolve_audio e fp st = (Inr ap, st1)"
    and "MAX_FILE_SIZE_MB < size_mb e ap"
    and "transcribir_archivo tr e fp l m p f True st = (Inr res, st')"
  shows "res_chunks res = length (posts_of (events_since st1 st'))
       \<and> (\<forall>d. env_probe e ap = Some d \<and> d \<noteq> 0 \<longrightarrow>
             cuts_of (events_since st1 st') = chunk_windows d (4 * 60) 15
             \<and> res_chunks res
               = length (filter (\<lambda>(s, t). env_cut e ap s (t - s))
                           (chunk_windows d (4 * 60) 15)))"
proof -
  from chunked_run [OF assms] obtain cs st2 where
    cc: "create_chunks e ap (4 * 60) 15 (emit (Probe ap) st1) = (Inr cs, st2)"
    and n: "res_chunks res = length cs"
    and tr: "trace st' = trace st2 @ map (\<lambda>c. Post (build_request tr c l m p f)) cs"
    by blast
  let ?posts = "map (\<lambda>c. Post (build_request tr c l m p f)) cs"
  have posts: "posts_of ?posts = map (\<lambda>c. build_request tr c l m p f) cs"
    using posts_of_map_Post [of "map (\<lambda>c. build_request tr c l m p f) cs"]
    by (simp add: comp_def)
  have nocuts: "cuts_of ?posts = []"
    using cuts_of_map_Post [of "map (\<lambda>c. build_request tr c l m p f) cs"]
    by (simp add: comp_def)
  from create_chunks_Inr_cases [OF cc] show ?thesis
  proof
    assume u: "(env_probe e ap = None \<or> env_probe e ap = Some 0) \<and> cs = [ap]
               \<and> st2 = emit (Probe ap) (emit (Probe ap) st1)"
    then have "events_since st1 st' = [Probe ap, Probe ap] @ ?posts"
      using tr by (intro events_sinceI) simp
    then show ?thesis using u n by auto
  next
    assume "\<exists>d. env_probe e ap = Some d \<and> d \<noteq> 0 \<and> (4 * 60 :: real) - 15 \<noteq> 0"
    then obtain d where d: "env_probe e ap = Some d" "d \<noteq> 0" "(4 * 60 :: real) - 15 \<noteq> 0"
      by blast
    from create_chunks_known_facts [OF d cc] obtain evs where
      len: "length cs = length (filter (\<lambda>(s, t). env_cut e ap s (t - s))
                                  (chunk_windows d (4 * 60) 15))"
      and t2: "trace st2 = trace (emit (Probe ap) st1) @ Probe ap # evs"
      and pe: "posts_of evs = []" and ce: "cuts_of evs = chunk_windows d (4 * 60) 15"
      by auto
    have "events_since st1 st' = [Probe ap, Probe ap] @ evs @ ?posts"
      using tr t2 by (intro events_sinceI) simp
    then show ?thesis
      using d n len pe ce posts nocuts by (simp add: posts_of_append cuts_of_append)
  qed
qed

lemma create_chunks_loop_none:
  assumes "\<forall>i \<in> set idx. \<not> env_cut e ap (start_time cd ov i)
                               (end_time d cd ov i - start_time cd ov i)"
  shows "fst (create_chunks_loop e ap d cd ov idx [] st) = []"
proof -
  have "filter (\<lambda>i. env_cut e ap (start_time cd ov i)
                       (end_time d cd ov i - start_time cd ov i)) idx = []"
    using assms by (simp add: filter_empty_conv)
  then have "length (fst (create_chunks_loop e ap d cd ov idx [] st)) = 0"
    by (simp add: create_chunks_loop_length)
  then show ?thesis by simp
qed

text \<open>
  C5, as amended: on the chunked path with a known duration other than zero, when no planned
  window could be cut the call still succeeds, with an empty text and \<^verbatim>\<open>chunks == 0\<close>;
  every other returned result has \<^verbatim>\<open>chunks >= 1\<close>.
\<close>

theorem chunk_count_zero_iff:
  assumes "fp \<in> files st"
    and "resolve_audio e fp st = (Inr ap, st1)"
  shows "(MAX_FILE_SIZE_MB < size_mb e ap \<and> c \<and> env_probe e ap = Some d \<and> d \<noteq> 0
          \<and> (\<forall>(s, t) \<in> set (chunk_windows d (4 * 60) 15). \<not> env_cut e ap s (t - s))
          \<longrightarrow> fst (transcribir_archivo tr e fp l m p f c st)
                = Inr \<lparr>res_text = [], res_language = l, res_duration = Some d,
                       res_success = True, res_model = m, res_chunks = 0\<rparr>)
       \<and> (\<forall>res st'. transcribir_archivo tr e fp l m p f c st = (Inr res, st') \<longrightarrow>
             (res_chunks res = 0 \<longleftrightarrow>
                MAX_FILE_SIZE_MB < size_mb e ap \<and> c
                \<and> (\<exists>d. env_probe e ap = Some d \<and> d \<noteq> 0
                       \<and> (\<forall>(s, t) \<in> set (chunk_windows d (4 * 60) 15).
                             \<not> env_cut e ap s (t - s)))))"
proof -
  have ex1: "ap \<in> files st1" by (rule resolve_audio_exists [OF assms])
  have none: "fst (transcribir_archivo tr e fp l m p f c st)
                = Inr \<lparr>res_text = [], res_language = l, res_duration = Some d,
                       res_success = True, res_model = m, res_chunks = 0\<rparr>"
    if big: "MAX_FILE_SIZE_MB < size_mb e ap \<and> c"
      and d: "env_probe e ap = Some d" "d \<noteq> 0"
      and fail: "\<forall>(s, t) \<in> set (chunk_windows d (4 * 60) 15). \<not> env_cut e ap s (t - s)"
  proof -
    let ?idx = "[0..<nat (num_chunks d (4 * 60) 15)]"
    let ?L = "create_chunks_loop e ap d (4 * 60) 15 ?idx [] (emit (Probe ap) (emit (Probe ap) st1))"
    have "\<forall>i \<in> set ?idx. \<not> env_cut e ap (start_time (4 * 60) 15 i)
                               (end_time d (4 * 60) 15 i - start_time (4 * 60) 15 i)"
      using fail by (auto simp: chunk_windows_def)
    then have empty: "fst ?L = []" by (rule create_chunks_loop_none)
    have cc: "create_chunks e ap (4 * 60) 15 (emit (Probe ap) st1) = (Inr [], snd ?L)"
      using create_chunks_known [OF d, of "4 * 60" 15 "emit (Probe ap) st1"] empty by simp
    show ?thesis
      using big ex1 d cc
      by (simp add: transcribir_archivo_unfold [OF assms(2)] transcribir_chunks_def)
  qed
  have iff: "res_chunks res = 0 \<longleftrightarrow>
                MAX_FILE_SIZE_MB < size_mb e ap \<and> c
                \<and> (\<exists>d. env_probe e ap = Some d \<and> d \<noteq> 0
                       \<and> (\<forall>(s, t) \<in> set (chunk_windows d (4 * 60) 15).
                             \<not> env_cut e ap s (t - s)))"
    if run0: "transcribir_archivo tr e fp l m p f c st = (Inr res, st')" for res st'
  proof (cases "MAX_FILE_SIZE_MB < size_mb e ap \<and> c")
    case False
    then have "res_chunks res = 1"
      using run0
      by (auto simp: transcribir_archivo_unfold [OF assms(2)]
               split: if_splits prod.splits sum.splits)
    then show ?thesis using False by auto
  next
    case True
    then have run: "transcribir_archivo tr e fp l m p f True st = (Inr res, st')"
      using run0 by simp
    from chunked_run [OF assms(2) _ run] True obtain cs st2 where
      cc: "create_chunks e ap (4 * 60) 15 (emit (Probe ap) st1) = (Inr cs, st2)"
      and n: "res_chunks res = length cs"
      by blast
    from create_chunks_Inr_cases [OF cc] show ?thesis
    proof
      assume "(env_probe e ap = None \<or> env_probe e ap = Some 0) \<and> cs = [ap]
              \<and> st2 = emit (Probe ap) (emit (Probe ap) st1)"
      then show ?thesis using n by auto
    next
      assume "\<exists>d. env_probe e ap = Some d \<and> d \<noteq> 0 \<and> (4 * 60 :: real) - 15 \<noteq> 0"
      then obtain d where d: "env_probe e ap = Some d" "d \<noteq> 0" "(4 * 60 :: real) - 15 \<noteq> 0"
        by blast
      from create_chunks_known_facts [OF d cc] have
        "length cs = length (filter (\<lambda>(s, t). env_cut e ap s (t - s))
                               (chunk_windows d (4 * 60) 15))"
        by auto
      then have "res_chunks res = 0 \<longleftrightarrow>
                   (\<forall>(s, t) \<in> set (chunk_windows d (4 * 60) 15). \<not> env_cut e ap s (t - s))"
        using n by (auto simp: filter_empty_conv)
      then show ?thesis using True d by auto
    qed
  qed
  show ?thesis using none iff by blast
qed

text \<open>
  C8: on the chunked path the text of the result is \<open>t1 + sep + t2 + ... + sep + tN\<close> with
  \<open>sep\<close> two newlines, where \<open>t1 ... tN\<close> are the texts returned for the chunk files in index
  order; the uploads were made in that order and each was answered with 200.
\<close>

theorem chunked_text_merged:
  assumes "transcribir_chunks tr e ap dur l m p f st = (Inr res, st')"
    and "create_chunks e ap (4 * 60) 15 st = (Inr cs, st1)"
  shows "res_text res = merged_text (map (chunk_text tr e l m p f) cs)
       \<and> posts_of (events_since st1 st') = map (\<lambda>c. build_request tr c l m p f) cs
       \<and> (\<forall>c \<in> set cs. \<exists>resp. env_post e (build_request tr c l m p f) = Responded resp
                            \<and> status_code resp = 200
                            \<and> chunk_text tr e l m p f c = returned_text f resp)"
proof -
  from assms obtain ts where
    tl: "transcribe_loop tr e l m p f cs [] st1 = (Inr ts, st')"
    and res: "res_text res = join [CHR 0x0A, CHR 0x0A] ts"
    by (auto simp: transcribir_chunks_def split: prod.splits sum.splits)
  from transcribe_loop_Inr [OF tl] have
    ts: "ts = map (chunk_text tr e l m p f) cs"
    and tr: "trace st' = trace st1 @ map (\<lambda>c. Post (build_request tr c l m p f)) cs"
    by simp_all
  have "events_since st1 st' = map Post (map (\<lambda>c. build_request tr c l m p f) cs)"
    using tr by (intro events_sinceI) (simp add: comp_def)
  then have "posts_of (events_since st1 st') = map (\<lambda>c. build_request tr c l m p f) cs"
    by (simp only: posts_of_map_Post)
  then show ?thesis
    using res ts transcribe_loop_Inr_ok [OF tl] by (simp add: join_merged_text)
qed

text \<open>
  C9: an answer with a status other than 200 makes \<^verbatim>\<open>_call_api\<close> raise an error whose
  message holds the status code and the raw body, after one upload only. On the chunked path,
  when the chunks before \<open>c\<close> are answered with 200 and \<open>c\<close> is not, the job ends with that
  error: no result is returned and no chunk after \<open>c\<close> is uploaded.
\<close>

theorem api_error_aborts_job:
  assumes "ap \<in> files st"
    and "create_chunks e ap (4 * 60) 15 st = (Inr (pre @ c # rest), st1)"
    and "\<forall>q \<in> set pre. \<exists>r. env_post e (build_request tr q l m p f) = Responded r
                              \<and> status_code r = 200"
    and "env_post e (build_request tr c l m p f) = Responded resp"
    and "status_code resp \<noteq> 200"
  shows "(\<forall>s. c \<in> files s \<longrightarrow>
            call_api tr e c l m p f s
            = (Inl (Exception (''Error de API Groq: '' @ show_int (status_code resp)
                                @ '' - '' @ response_text resp)),
               emit (Post (build_request tr c l m p f)) s))
       \<and> (case transcribir_chunks tr e ap dur l m p f st of
            (r, st') \<Rightarrow>
              r = Inl (Exception (''Error de API Groq: '' @ show_int (status_code resp)
                                   @ '' - '' @ response_text resp))
              \<and> posts_of (events_since st1 st')
                = map (\<lambda>q. build_request tr q l m p f) (pre @ [c]))"
proof -
  have one: "\<forall>s. c \<in> files s \<longrightarrow>
            call_api tr e c l m p f s
            = (Inl (Exception (''Error de API Groq: '' @ show_int (status_code resp)
                                @ '' - '' @ response_text resp)),
               emit (Post (build_request tr c l m p f)) s)"
    using call_api_not_200 [OF _ assms(4,5)] by (simp add: api_error_message_def)
  from create_chunks_distinct_exist [OF assms(1,2)] have
    d: "distinct (pre @ [c])" and s: "set (pre @ [c]) \<subseteq> files st1"
    by auto
  from transcribe_loop_abort [OF d s assms(3,4,5), of rest "[]"] obtain st' where
    tl: "transcribe_loop tr e l m p f (pre @ c # rest) [] st1
         = (Inl (Exception (api_error_message resp)), st')"
    and tr: "trace st' = trace st1 @ map (\<lambda>c. Post (build_request tr c l m p f)) (pre @ [c])"
    by blast
  have "events_since st1 st' = map Post (map (\<lambda>q. build_request tr q l m p f) (pre @ [c]))"
    using tr by (intro events_sinceI) (simp add: comp_def)
  then have "posts_of (events_since st1 st')
             = map (\<lambda>q. build_request tr q l m p f) (pre @ [c])"
    by (simp only: posts_of_map_Post)
  then have two: "case transcribir_chunks tr e ap dur l m p f st of
            (r, st') \<Rightarrow>
              r = Inl (Exception (''Error de API Groq: '' @ show_int (status_code resp)
                                   @ '' - '' @ response_text resp))
              \<and> posts_of (events_since st1 st')
                = map (\<lambda>q. build_request tr q l m p f) (pre @ [c])"
    using assms(2) tl by (simp add: transcribir_chunks_def api_error_message_def)
  show ?thesis using one two by blast
qed


section \<open>Example runs, evaluated\<close>

lemma is_video_talk: "is_video (NamedPath ''talk.mp3'') = False"
  by code_simp

lemma is_video_clip: "is_video (NamedPath ''clip.mp4'') = True"
  by code_simp

lemma is_video_wav: "is_video (TempFile 0 ''.wav'') = False"
  by code_simp

lemma chunk_names:
  "show_nat 0 = ''0''" "show_nat (Suc 0) = ''1''" "show_nat (Suc (Suc 0)) = ''2''"
  "show_nat 429 = ''429''"
  by (simp_all add: show_nat.simps)

lemma windows_600: "chunk_windows 600 (4 * 60) 15 = [(0, 240), (225, 465), (450, 600)]"
  by (simp add: chunk_windows_def num_chunks_def start_time_def end_time_def upt_conv_Cons)

lemmas run_defs =
  transcribir_def transcribir_archivo_def resolve_audio_def transcribir_chunks_def
  create_chunks_def get_duration_def call_api_def build_request_def extract_audio_def
  named_temporary_file_def emit_def remove_if_exists_def
  example_env_def example_state_def example_transcriptor_def thirty_mb_def ten_mb_def
  MAX_FILE_SIZE_MB_def size_mb_def num_chunks_def start_time_def end_time_def
  returned_text_def api_error_message_def show_int_def events_since_def
  is_video_talk is_video_clip is_video_wav chunk_names upt_conv_Cons Let_def

lemma cut_all_600:
  "create_chunks (example_env (Some 600) thirty_mb (\<lambda>_. True) status)
     (NamedPath ''talk.mp3'') (4 * 60) 15 example_state
   = (Inr [TempFile 0 ''_chunk_0.wav'', TempFile 1 ''_chunk_1.wav'',
           TempFile 2 ''_chunk_2.wav''],
      \<lparr>files = {NamedPath ''talk.mp3'', NamedPath ''clip.mp4'', TempFile 0 ''_chunk_0.wav'',
                TempFile 1 ''_chunk_1.wav'', TempFile 2 ''_chunk_2.wav''},
       next_tmp = 3,
       trace = [Probe (NamedPath ''talk.mp3''),
                Cut (NamedPath ''talk.mp3'') 0 240 (TempFile 0 ''_chunk_0.wav''),
                Cut (NamedPath ''talk.mp3'') 225 240 (TempFile 1 ''_chunk_1.wav''),
                Cut (NamedPath ''talk.mp3'') 450 150 (TempFile 2 ''_chunk_2.wav'')]\<rparr>)"
  by (simp add: run_defs) auto

lemma run_second_chunk_dropped:
  "transcribir_archivo example_transcriptor
     (example_env (Some 600) thirty_mb (\<lambda>s. s \<noteq> 225) (\<lambda>_. 200))
     (NamedPath ''talk.mp3'') ''es'' ''whisper-large-v3-turbo'' [] ''json'' True example_state
   = (Inr \<lparr>res_text = ''_chunk_0.wav'' @ [CHR 0x0A, CHR 0x0A] @ ''_chunk_2.wav'',
           res_language = ''es'', res_duration = Some 600, res_success = True,
           res_model = ''whisper-large-v3-turbo'', res_chunks = 2\<rparr>,
      \<lparr>files = {NamedPath ''talk.mp3'', NamedPath ''clip.mp4''},
       next_tmp = 3,
       trace = [Probe (NamedPath ''talk.mp3''), Probe (NamedPath ''talk.mp3''),
                Cut (NamedPath ''talk.mp3'') 0 240 (TempFile 0 ''_chunk_0.wav''),
                Cut (NamedPath ''talk.mp3'') 225 240 (TempFile 1 ''_chunk_1.wav''),
                Cut (NamedPath ''talk.mp3'') 450 150 (TempFile 2 ''_chunk_2.wav''),
                Post (build_request example_transcriptor (TempFile 0 ''_chunk_0.wav'')
                        ''es'' ''whisper-large-v3-turbo'' [] ''json''),
                Post (build_request example_transcriptor (TempFile 2 ''_chunk_2.wav'')
                        ''es'' ''whisper-large-v3-turbo'' [] ''json'')]\<rparr>)"
  by (simp add: run_defs) auto

lemma run_only_last_chunk:
  "fst (transcribir_archivo example_transcriptor
     (example_env (Some 600) thirty_mb (\<lambda>s. s = 450) (\<lambda>_. 200))
     (NamedPath ''talk.mp3'') ''es'' ''whisper-large-v3-turbo'' [] ''json'' True example_state)
   = Inr \<lparr>res_text = ''_chunk_2.wav'',
           res_language = ''es'', res_duration = Some 600, res_success = True,
           res_model = ''whisper-large-v3-turbo'', res_chunks = 1\<rparr>"
  by (simp add: run_defs)

lemma run_all_chunks:
  "fst (transcribir_chunks example_transcriptor
     (example_env (Some 600) thirty_mb (\<lambda>_. True) (\<lambda>_. 200))
     (NamedPath ''talk.mp3'') (Some 600) ''es'' ''whisper-large-v3-turbo'' [] ''json''
     example_state)
   = Inr \<lparr>res_text = ''_chunk_0.wav'' @ [CHR 0x0A, CHR 0x0A] @ ''_chunk_1.wav''
                        @ [CHR 0x0A, CHR 0x0A] @ ''_chunk_2.wav'',
           res_language = ''es'', res_duration = Some 600, res_success = True,
           res_model = ''whisper-large-v3-turbo'', res_chunks = 3\<rparr>"
  by (simp add: run_defs)

lemma example_env_sel:
  "env_probe (example_env dur bytes cut_ok status) q = dur"
  "env_size (example_env dur bytes cut_ok status) q = bytes"
  "env_cut (example_env dur bytes cut_ok status) q s len = cut_ok s"
  "env_post (example_env dur bytes cut_ok status) r
   = Responded \<lparr>status_code = status (req_file r), response_text = ''slow down'',
                json_text = path_label (req_file r), json_verbose = []\<rparr>"
  by (simp_all add: example_env_def)

lemma pair_fstI: "fst x = a \<Longrightarrow> x = (a, snd x)"
  by (cases x) simp

lemma resolve_talk: "resolve_audio e (NamedPath ''talk.mp3'') st = (Inr (NamedPath ''talk.mp3''), st)"
  by (simp add: resolve_audio_def is_video_talk)

lemma resolve_clip:
  "resolve_audio (example_env dur bytes cut_ok status) (NamedPath ''clip.mp4'') example_state
   = (Inr (TempFile 0 ''.wav''),
      \<lparr>files = {TempFile 0 ''.wav'', NamedPath ''talk.mp3'', NamedPath ''clip.mp4''},
       next_tmp = 1,
       trace = [Extract (NamedPath ''clip.mp4'') (TempFile 0 ''.wav'')]\<rparr>)"
  by (simp add: run_defs)


section \<open>The claims on the example runs\<close>

text \<open>
  C1: the code at the failing input of the claim. A 30 MB file of 600 seconds is cut into
  three segment files and the service answers 429 for the second: the call raises, and the
  segment files of the second and third chunk are still there. A 10 MB video: the call succeeds
  and the audio extracted from it is still there.
\<close>

theorem temp_files_left_behind:
  "transcribir example_transcriptor
     (example_env (Some 600) thirty_mb (\<lambda>_. True)
        (\<lambda>q. if q = TempFile 1 ''_chunk_1.wav'' then 429 else 200))
     (PathStr (NamedPath ''talk.mp3'')) ''es'' None [] ''json'' True example_state
   = (Inl (Exception ''Error de API Groq: 429 - slow down''),
      \<lparr>files = {NamedPath ''talk.mp3'', NamedPath ''clip.mp4'',
                TempFile 1 ''_chunk_1.wav'', TempFile 2 ''_chunk_2.wav''},
       next_tmp = 3,
       trace = [Probe (NamedPath ''talk.mp3''), Probe (NamedPath ''talk.mp3''),
                Cut (NamedPath ''talk.mp3'') 0 240 (TempFile 0 ''_chunk_0.wav''),
                Cut (NamedPath ''talk.mp3'') 225 240 (TempFile 1 ''_chunk_1.wav''),
                Cut (NamedPath ''talk.mp3'') 450 150 (TempFile 2 ''_chunk_2.wav''),
                Post (build_request example_transcriptor (TempFile 0 ''_chunk_0.wav'')
                        ''es'' ''whisper-large-v3-turbo'' [] ''json''),
                Post (build_request example_transcriptor (TempFile 1 ''_chunk_1.wav'')
                        ''es'' ''whisper-large-v3-turbo'' [] ''json'')]\<rparr>)
   \<and> transcribir example_transcriptor
     (example_env (Some 200) ten_mb (\<lambda>_. True) (\<lambda>_. 200))
     (PathStr (NamedPath ''clip.mp4'')) ''es'' None [] ''json'' True example_state
   = (Inr \<lparr>res_text = ''.wav'', res_language = ''es'', res_duration = Some 200,
           res_success = True, res_model = ''whisper-large-v3-turbo'', res_chunks = 1\<rparr>,
      \<lparr>files = {TempFile 0 ''.wav'', NamedPath ''talk.mp3'', NamedPath ''clip.mp4''},
       next_tmp = 1,
       trace = [Extract (NamedPath ''clip.mp4'') (TempFile 0 ''.wav''),
                Probe (TempFile 0 ''.wav''),
                Post (build_request example_transcriptor (TempFile 0 ''.wav'')
                        ''es'' ''whisper-large-v3-turbo'' [] ''json'')]\<rparr>)"
  by (simp add: run_defs) auto

text \<open>
  A 30 MB file of 600 seconds whose three cuts all fail: the call succeeds with an empty text
  and \<^verbatim>\<open>chunks == 0\<close>.
\<close>

theorem chunk_count_zero_counterexample:
  "transcribir example_transcriptor
     (example_env (Some 600) thirty_mb (\<lambda>_. False) (\<lambda>_. 200))
     (PathStr (NamedPath ''talk.mp3'')) ''es'' None [] ''json'' True example_state
   = (Inr \<lparr>res_text = [], res_language = ''es'', res_duration = Some 600,
           res_success = True, res_model = ''whisper-large-v3-turbo'', res_chunks = 0\<rparr>,
      \<lparr>files = {NamedPath ''talk.mp3'', NamedPath ''clip.mp4''},
       next_tmp = 3,
       trace = [Probe (NamedPath ''talk.mp3''), Probe (NamedPath ''talk.mp3''),
                Cut (NamedPath ''talk.mp3'') 0 240 (TempFile 0 ''_chunk_0.wav''),
                Cut (NamedPath ''talk.mp3'') 225 240 (TempFile 1 ''_chunk_1.wav''),
                Cut (NamedPath ''talk.mp3'') 450 150 (TempFile 2 ''_chunk_2.wav'')]\<rparr>)"
  by (simp add: run_defs)

theorem direct_path_single_call_witness:
  "NamedPath ''talk.mp3'' \<in> files example_state
   \<and> resolve_audio (example_env (Some 200) ten_mb (\<lambda>_. True) (\<lambda>_. 200))
        (NamedPath ''talk.mp3'') example_state
      = (Inr (NamedPath ''talk.mp3''), example_state)
   \<and> size_mb (example_env (Some 200) ten_mb (\<lambda>_. True) (\<lambda>_. 200)) (NamedPath ''talk.mp3'')
        \<le> MAX_FILE_SIZE_MB
   \<and> events_since example_state
        (snd (transcribir_archivo example_transcriptor
                (example_env (Some 200) ten_mb (\<lambda>_. True) (\<lambda>_. 200))
                (NamedPath ''talk.mp3'') ''es'' ''whisper-large-v3-turbo'' [] ''json'' True
                example_state))
      = [Probe (NamedPath ''talk.mp3''),
         Post (build_request example_transcriptor (NamedPath ''talk.mp3'')
                 ''es'' ''whisper-large-v3-turbo'' [] ''json'')]
   \<and> fst (transcribir_archivo example_transcriptor
             (example_env (Some 200) ten_mb (\<lambda>_. True) (\<lambda>_. 200))
             (NamedPath ''talk.mp3'') ''es'' ''whisper-large-v3-turbo'' [] ''json'' True
             example_state)
      = Inr \<lparr>res_text = ''talk.mp3'', res_language = ''es'', res_duration = Some 200,
             res_success = True, res_model = ''whisper-large-v3-turbo'', res_chunks = 1\<rparr>"
proof -
  let ?e = "example_env (Some 200) ten_mb (\<lambda>_. True) (\<lambda>_. 200)"
  have h1: "NamedPath ''talk.mp3'' \<in> files example_state"
    by (simp add: example_state_def)
  have h2: "resolve_audio ?e (NamedPath ''talk.mp3'') example_state
            = (Inr (NamedPath ''talk.mp3''), example_state)"
    by (rule resolve_talk)
  have h3: "size_mb ?e (NamedPath ''talk.mp3'') \<le> MAX_FILE_SIZE_MB"
    by (simp add: size_mb_def example_env_sel ten_mb_def MAX_FILE_SIZE_MB_def)
  from direct_path_single_call [OF h1 h2 h3, where tr = example_transcriptor and l = "''es''"
      and m = "''whisper-large-v3-turbo''" and p = "[]" and f = "''json''" and c = True]
  show ?thesis
    using h1 h2 h3
    by (simp add: case_prod_beta returned_text_def example_env_sel build_request_def)
qed

text \<open>
  A 30 MB audio file whose probe fails: the call is handed to \<^verbatim>\<open>_transcribir_chunks\<close>, and
  \<^verbatim>\<open>create_chunks\<close> runs (the second probe is its own) and returns the file itself.
\<close>

theorem unknown_duration_counterexample:
  "env_probe (example_env None thirty_mb (\<lambda>_. True) (\<lambda>_. 200)) (NamedPath ''talk.mp3'') = None
   \<and> transcribir_archivo example_transcriptor (example_env None thirty_mb (\<lambda>_. True) (\<lambda>_. 200))
        (NamedPath ''talk.mp3'') ''es'' ''whisper-large-v3-turbo'' [] ''json'' True example_state
      = transcribir_chunks example_transcriptor (example_env None thirty_mb (\<lambda>_. True) (\<lambda>_. 200))
          (NamedPath ''talk.mp3'') None ''es'' ''whisper-large-v3-turbo'' [] ''json''
          (emit (Probe (NamedPath ''talk.mp3'')) example_state)
   \<and> create_chunks (example_env None thirty_mb (\<lambda>_. True) (\<lambda>_. 200)) (NamedPath ''talk.mp3'') (4 * 60) 15
        (emit (Probe (NamedPath ''talk.mp3'')) example_state)
      = (Inr [NamedPath ''talk.mp3''],
         emit (Probe (NamedPath ''talk.mp3''))
           (emit (Probe (NamedPath ''talk.mp3'')) example_state))
   \<and> trace (snd (transcribir_archivo example_transcriptor (example_env None thirty_mb (\<lambda>_. True) (\<lambda>_. 200))
                    (NamedPath ''talk.mp3'') ''es'' ''whisper-large-v3-turbo'' [] ''json'' True
                    example_state))
      = [Probe (NamedPath ''talk.mp3''), Probe (NamedPath ''talk.mp3''),
         Post (build_request example_transcriptor (NamedPath ''talk.mp3'')
                 ''es'' ''whisper-large-v3-turbo'' [] ''json'')]"
  by (simp add: run_defs)

theorem unknown_duration_single_call_witness:
  "NamedPath ''clip.mp4'' \<in> files example_state
   \<and> resolve_audio (example_env None thirty_mb (\<lambda>_. True) (\<lambda>_. 200)) (NamedPath ''clip.mp4'') example_state
      = (Inr (TempFile 0 ''.wav''),
         \<lparr>files = {TempFile 0 ''.wav'', NamedPath ''talk.mp3'', NamedPath ''clip.mp4''},
          next_tmp = 1,
          trace = [Extract (NamedPath ''clip.mp4'') (TempFile 0 ''.wav'')]\<rparr>)
   \<and> env_probe (example_env None thirty_mb (\<lambda>_. True) (\<lambda>_. 200)) (TempFile 0 ''.wav'') = None
   \<and> MAX_FILE_SIZE_MB < size_mb (example_env None thirty_mb (\<lambda>_. True) (\<lambda>_. 200)) (TempFile 0 ''.wav'')
   \<and> fst (transcribir_archivo example_transcriptor (example_env None thirty_mb (\<lambda>_. True) (\<lambda>_. 200))
             (NamedPath ''clip.mp4'') ''es'' ''whisper-large-v3-turbo'' [] ''json'' True
             example_state)
      = Inr \<lparr>res_text = ''.wav'', res_language = ''es'', res_duration = None,
             res_success = True, res_model = ''whisper-large-v3-turbo'', res_chunks = 1\<rparr>
   \<and> events_since
        \<lparr>files = {TempFile 0 ''.wav'', NamedPath ''talk.mp3'', NamedPath ''clip.mp4''},
          next_tmp = 1,
          trace = [Extract (NamedPath ''clip.mp4'') (TempFile 0 ''.wav'')]\<rparr>
        (snd (transcribir_archivo example_transcriptor (example_env None thirty_mb (\<lambda>_. True) (\<lambda>_. 200))
                (NamedPath ''clip.mp4'') ''es'' ''whisper-large-v3-turbo'' [] ''json'' True
                example_state))
      = [Probe (TempFile 0 ''.wav''), Probe (TempFile 0 ''.wav''),
         Post (build_request example_transcriptor (TempFile 0 ''.wav'')
                 ''es'' ''whisper-large-v3-turbo'' [] ''json'')]
   \<and> next_tmp (snd (transcribir_archivo example_transcriptor (example_env None thirty_mb (\<lambda>_. True) (\<lambda>_. 200))
                (NamedPath ''clip.mp4'') ''es'' ''whisper-large-v3-turbo'' [] ''json'' True
                example_state)) = 1"
proof -
  let ?e = "example_env None thirty_mb (\<lambda>_. True) (\<lambda>_. 200)"
  have h1: "NamedPath ''clip.mp4'' \<in> files example_state"
    by (simp add: example_state_def)
  note h2 = resolve_clip [of None thirty_mb "\<lambda>_. True" "\<lambda>_. 200"]
  have h3: "env_probe ?e (TempFile 0 ''.wav'') = None"
    by (simp add: example_env_sel)
  have big: "MAX_FILE_SIZE_MB < size_mb ?e (TempFile 0 ''.wav'')"
    by (simp add: size_mb_def example_env_sel thirty_mb_def MAX_FILE_SIZE_MB_def)
  have post: "env_post ?e (build_request example_transcriptor (TempFile 0 ''.wav'')
                             ''es'' ''whisper-large-v3-turbo'' [] ''json'')
              = Responded \<lparr>status_code = 200, response_text = ''slow down'',
                           json_text = ''.wav'', json_verbose = []\<rparr>"
    by (simp add: example_env_sel build_request_def)
  from unknown_duration_single_call [OF h1 h2 h3, where tr = example_transcriptor
      and l = "''es''" and m = "''whisper-large-v3-turbo''" and p = "[]" and f = "''json''"
      and c = True]
  have "events_since
        \<lparr>files = {TempFile 0 ''.wav'', NamedPath ''talk.mp3'', NamedPath ''clip.mp4''},
          next_tmp = 1,
          trace = [Extract (NamedPath ''clip.mp4'') (TempFile 0 ''.wav'')]\<rparr>
        (snd (transcribir_archivo example_transcriptor ?e
                (NamedPath ''clip.mp4'') ''es'' ''whisper-large-v3-turbo'' [] ''json'' True
                example_state))
      = [Probe (TempFile 0 ''.wav''), Probe (TempFile 0 ''.wav''),
         Post (build_request example_transcriptor (TempFile 0 ''.wav'')
                 ''es'' ''whisper-large-v3-turbo'' [] ''json'')]
    \<and> next_tmp (snd (transcribir_archivo example_transcriptor ?e
                (NamedPath ''clip.mp4'') ''es'' ''whisper-large-v3-turbo'' [] ''json'' True
                example_state)) = 1
    \<and> fst (transcribir_archivo example_transcriptor ?e
             (NamedPath ''clip.mp4'') ''es'' ''whisper-large-v3-turbo'' [] ''json'' True
             example_state)
      = Inr \<lparr>res_text = ''.wav'', res_language = ''es'', res_duration = None,
             res_success = True, res_model = ''whisper-large-v3-turbo'', res_chunks = 1\<rparr>"
    using big post by (auto simp: case_prod_beta returned_text_def)
  then show ?thesis
    using h1 h2 h3 big by simp
qed

theorem unknown_duration_deletes_source_witness:
  "NamedPath ''talk.mp3'' \<in> files example_state
   \<and> resolve_audio (example_env None thirty_mb (\<lambda>_. True) (\<lambda>_. 200))
        (NamedPath ''talk.mp3'') example_state
      = (Inr (NamedPath ''talk.mp3''), example_state)
   \<and> env_probe (example_env None thirty_mb (\<lambda>_. True) (\<lambda>_. 200)) (NamedPath ''talk.mp3'')
      = None
   \<and> MAX_FILE_SIZE_MB
      < size_mb (example_env None thirty_mb (\<lambda>_. True) (\<lambda>_. 200)) (NamedPath ''talk.mp3'')
   \<and> env_post (example_env None thirty_mb (\<lambda>_. True) (\<lambda>_. 200))
        (build_request example_transcriptor (NamedPath ''talk.mp3'')
           ''es'' ''whisper-large-v3-turbo'' [] ''json'')
      = Responded \<lparr>status_code = 200, response_text = ''slow down'',
                   json_text = ''talk.mp3'', json_verbose = []\<rparr>
   \<and> \<not> is_video (NamedPath ''talk.mp3'')
   \<and> fst (create_chunks (example_env None thirty_mb (\<lambda>_. True) (\<lambda>_. 200))
             (NamedPath ''talk.mp3'') (4 * 60) 15 example_state)
      = Inr [NamedPath ''talk.mp3'']
   \<and> fst (transcribir_archivo example_transcriptor
             (example_env None thirty_mb (\<lambda>_. True) (\<lambda>_. 200))
             (NamedPath ''talk.mp3'') ''es'' ''whisper-large-v3-turbo'' [] ''json'' True
             example_state)
      = Inr \<lparr>res_text = ''talk.mp3'', res_language = ''es'', res_duration = None,
             res_success = True, res_model = ''whisper-large-v3-turbo'', res_chunks = 1\<rparr>
   \<and> NamedPath ''talk.mp3''
      \<notin> files (snd (transcribir_archivo example_transcriptor
                       (example_env None thirty_mb (\<lambda>_. True) (\<lambda>_. 200))
                       (NamedPath ''talk.mp3'') ''es'' ''whisper-large-v3-turbo'' [] ''json''
                       True example_state))"
proof -
  let ?e = "example_env None thirty_mb (\<lambda>_. True) (\<lambda>_. 200)"
  let ?resp = "\<lparr>status_code = 200, response_text = ''slow down'',
                json_text = ''talk.mp3'', json_verbose = []\<rparr>"
  have h1: "NamedPath ''talk.mp3'' \<in> files example_state"
    by (simp add: example_state_def)
  have h2: "resolve_audio ?e (NamedPath ''talk.mp3'') example_state
            = (Inr (NamedPath ''talk.mp3''), example_state)"
    by (rule resolve_talk)
  have h3: "env_probe ?e (NamedPath ''talk.mp3'') = None"
    by (simp add: example_env_sel)
  have h4: "MAX_FILE_SIZE_MB < size_mb ?e (NamedPath ''talk.mp3'')"
    by (simp add: size_mb_def example_env_sel thirty_mb_def MAX_FILE_SIZE_MB_def)
  have h5: "env_post ?e (build_request example_transcriptor (NamedPath ''talk.mp3'')
                           ''es'' ''whisper-large-v3-turbo'' [] ''json'') = Responded ?resp"
    by (simp add: example_env_sel build_request_def)
  have h6: "status_code ?resp = 200" by simp
  from unknown_duration_deletes_source [OF h1 h2 h3 h4 h5 h6]
  show ?thesis
    using h1 h2 h3 h4 h5
    by (simp add: case_prod_beta returned_text_def is_video_talk)
qed


theorem chunk_count_counts_materialized_witness:
  "resolve_audio (example_env (Some 600) thirty_mb (\<lambda>s. s \<noteq> 225) (\<lambda>_. 200))
        (NamedPath ''talk.mp3'') example_state
      = (Inr (NamedPath ''talk.mp3''), example_state)
   \<and> MAX_FILE_SIZE_MB
      < size_mb (example_env (Some 600) thirty_mb (\<lambda>s. s \<noteq> 225) (\<lambda>_. 200))
          (NamedPath ''talk.mp3'')
   \<and> fst (transcribir_archivo example_transcriptor
             (example_env (Some 600) thirty_mb (\<lambda>s. s \<noteq> 225) (\<lambda>_. 200))
             (NamedPath ''talk.mp3'') ''es'' ''whisper-large-v3-turbo'' [] ''json'' True
             example_state)
      = Inr \<lparr>res_text = ''_chunk_0.wav'' @ [CHR 0x0A, CHR 0x0A] @ ''_chunk_2.wav'',
             res_language = ''es'', res_duration = Some 600, res_success = True,
             res_model = ''whisper-large-v3-turbo'', res_chunks = 2\<rparr>
   \<and> length (chunk_windows 600 (4 * 60) 15) = 3
   \<and> length (posts_of (events_since example_state
        (snd (transcribir_archivo example_transcriptor
                (example_env (Some 600) thirty_mb (\<lambda>s. s \<noteq> 225) (\<lambda>_. 200))
                (NamedPath ''talk.mp3'') ''es'' ''whisper-large-v3-turbo'' [] ''json'' True
                example_state)))) = 2
   \<and> cuts_of (events_since example_state
        (snd (transcribir_archivo example_transcriptor
                (example_env (Some 600) thirty_mb (\<lambda>s. s \<noteq> 225) (\<lambda>_. 200))
                (NamedPath ''talk.mp3'') ''es'' ''whisper-large-v3-turbo'' [] ''json'' True
                example_state)))
      = chunk_windows 600 (4 * 60) 15
   \<and> length (filter (\<lambda>(s, t). env_cut (example_env (Some 600) thirty_mb (\<lambda>s. s \<noteq> 225)
                                          (\<lambda>_. 200)) (NamedPath ''talk.mp3'') s (t - s))
               (chunk_windows 600 (4 * 60) 15)) = 2"
proof -
  let ?e = "example_env (Some 600) thirty_mb (\<lambda>s. s \<noteq> 225) (\<lambda>_. 200)"
  let ?run = "transcribir_archivo example_transcriptor ?e
                (NamedPath ''talk.mp3'') ''es'' ''whisper-large-v3-turbo'' [] ''json'' True
                example_state"
  let ?res = "\<lparr>res_text = ''_chunk_0.wav'' @ [CHR 0x0A, CHR 0x0A] @ ''_chunk_2.wav'',
             res_language = ''es'', res_duration = Some 600, res_success = True,
             res_model = ''whisper-large-v3-turbo'', res_chunks = 2\<rparr>"
  have h1: "resolve_audio ?e (NamedPath ''talk.mp3'') example_state
            = (Inr (NamedPath ''talk.mp3''), example_state)"
    by (rule resolve_talk)
  have h2: "MAX_FILE_SIZE_MB < size_mb ?e (NamedPath ''talk.mp3'')"
    by (simp add: size_mb_def example_env_sel thirty_mb_def MAX_FILE_SIZE_MB_def)
  have r: "fst ?run = Inr ?res"
    by (simp add: run_second_chunk_dropped)
  have h3: "?run = (Inr ?res, snd ?run)"
    by (rule pair_fstI) (rule r)
  have pr: "env_probe ?e (NamedPath ''talk.mp3'') = Some 600 \<and> (600::real) \<noteq> 0"
    by (simp add: example_env_sel)
  have n: "length (chunk_windows 600 (4 * 60) 15) = 3"
    using windows_600 by simp
  from chunk_count_counts_materialized [OF h1 h2 h3] pr
  show ?thesis using h1 h2 r n by simp
qed

theorem chunk_count_zero_iff_witness:
  "NamedPath ''talk.mp3'' \<in> files example_state
   \<and> resolve_audio (example_env (Some 600) thirty_mb (\<lambda>_. False) (\<lambda>_. 200)) (NamedPath ''talk.mp3'') example_state
      = (Inr (NamedPath ''talk.mp3''), example_state)
   \<and> MAX_FILE_SIZE_MB < size_mb (example_env (Some 600) thirty_mb (\<lambda>_. False) (\<lambda>_. 200)) (NamedPath ''talk.mp3'')
   \<and> env_probe (example_env (Some 600) thirty_mb (\<lambda>_. False) (\<lambda>_. 200)) (NamedPath ''talk.mp3'') = Some 600
   \<and> map (\<lambda>(s, t). env_cut (example_env (Some 600) thirty_mb (\<lambda>_. False) (\<lambda>_. 200)) (NamedPath ''talk.mp3'') s (t - s))
        (chunk_windows 600 (4 * 60) 15) = [False, False, False]
   \<and> fst (transcribir_archivo example_transcriptor (example_env (Some 600) thirty_mb (\<lambda>_. False) (\<lambda>_. 200))
             (NamedPath ''talk.mp3'') ''es'' ''whisper-large-v3-turbo'' [] ''json'' True
             example_state)
      = Inr \<lparr>res_text = [], res_language = ''es'', res_duration = Some 600,
             res_success = True, res_model = ''whisper-large-v3-turbo'', res_chunks = 0\<rparr>
   \<and> fst (transcribir_archivo example_transcriptor (example_env (Some 600) thirty_mb (\<lambda>s. s = 450) (\<lambda>_. 200))
             (NamedPath ''talk.mp3'') ''es'' ''whisper-large-v3-turbo'' [] ''json'' True
             example_state)
      = Inr \<lparr>res_text = ''_chunk_2.wav'',
             res_language = ''es'', res_duration = Some 600, res_success = True,
             res_model = ''whisper-large-v3-turbo'', res_chunks = 1\<rparr>
   \<and> map (\<lambda>(s, t). env_cut (example_env (Some 600) thirty_mb (\<lambda>s. s = 450) (\<lambda>_. 200)) (NamedPath ''talk.mp3'') s (t - s))
        (chunk_windows 600 (4 * 60) 15) = [False, False, True]"
proof -
  let ?e0 = "example_env (Some 600) thirty_mb (\<lambda>_. False) (\<lambda>_. 200)"
  let ?e1 = "example_env (Some 600) thirty_mb (\<lambda>s. s = 450) (\<lambda>_. 200)"
  let ?run1 = "transcribir_archivo example_transcriptor ?e1
                (NamedPath ''talk.mp3'') ''es'' ''whisper-large-v3-turbo'' [] ''json'' True
                example_state"
  let ?res1 = "\<lparr>res_text = ''_chunk_2.wav'',
             res_language = ''es'', res_duration = Some 600, res_success = True,
             res_model = ''whisper-large-v3-turbo'', res_chunks = 1\<rparr>"
  have h1: "NamedPath ''talk.mp3'' \<in> files example_state"
    by (simp add: example_state_def)
  have h2: "resolve_audio e (NamedPath ''talk.mp3'') example_state
            = (Inr (NamedPath ''talk.mp3''), example_state)" for e
    by (rule resolve_talk)
  have big: "MAX_FILE_SIZE_MB < size_mb (example_env (Some 600) thirty_mb k (\<lambda>_. 200))
                                  (NamedPath ''talk.mp3'')" for k
    by (simp add: size_mb_def example_env_sel thirty_mb_def MAX_FILE_SIZE_MB_def)
  have probe: "env_probe (example_env (Some 600) thirty_mb k (\<lambda>_. 200))
                 (NamedPath ''talk.mp3'') = Some 600 \<and> (600::real) \<noteq> 0" for k
    by (simp add: example_env_sel)
  have fail: "\<forall>(s, t) \<in> set (chunk_windows 600 (4 * 60) 15).
                \<not> env_cut ?e0 (NamedPath ''talk.mp3'') s (t - s)"
    by (simp add: example_env_sel)
  have r1: "fst ?run1 = Inr ?res1" by (rule run_only_last_chunk)
  note p1 = pair_fstI [OF r1]
  have some: "map (\<lambda>(s, t). env_cut ?e1 (NamedPath ''talk.mp3'') s (t - s))
                (chunk_windows 600 (4 * 60) 15) = [False, False, True]"
    using windows_600 by (simp add: example_env_sel)
  have none: "map (\<lambda>(s, t). env_cut ?e0 (NamedPath ''talk.mp3'') s (t - s))
                (chunk_windows 600 (4 * 60) 15) = [False, False, False]"
    using windows_600 by (simp add: example_env_sel)
  note T0 = chunk_count_zero_iff [OF h1 h2 [of ?e0], where c = True and d = 600
      and tr = example_transcriptor and l = "''es''" and m = "''whisper-large-v3-turbo''"
      and p = "[]" and f = "''json''"]
  note T1 = chunk_count_zero_iff [OF h1 h2 [of ?e1], where c = True and d = 600
      and tr = example_transcriptor and l = "''es''" and m = "''whisper-large-v3-turbo''"
      and p = "[]" and f = "''json''"]
  have zero: "fst (transcribir_archivo example_transcriptor ?e0
             (NamedPath ''talk.mp3'') ''es'' ''whisper-large-v3-turbo'' [] ''json'' True
             example_state)
      = Inr \<lparr>res_text = [], res_language = ''es'', res_duration = Some 600,
             res_success = True, res_model = ''whisper-large-v3-turbo'', res_chunks = 0\<rparr>"
    using T0 big [of "\<lambda>_. False"] probe [of "\<lambda>_. False"] fail by blast
  have "res_chunks ?res1 \<noteq> 0" by simp
  show ?thesis
    using h1 h2 [of ?e0] big [of "\<lambda>_. False"] probe [of "\<lambda>_. False"] none zero r1 some
    by simp
qed

theorem chunked_text_merged_witness:
  "fst (transcribir_chunks example_transcriptor
          (example_env (Some 600) thirty_mb (\<lambda>_. True) (\<lambda>_. 200))
          (NamedPath ''talk.mp3'') (Some 600) ''es'' ''whisper-large-v3-turbo'' [] ''json''
          example_state)
      = Inr \<lparr>res_text = ''_chunk_0.wav'' @ [CHR 0x0A, CHR 0x0A] @ ''_chunk_1.wav''
                          @ [CHR 0x0A, CHR 0x0A] @ ''_chunk_2.wav'',
             res_language = ''es'', res_duration = Some 600, res_success = True,
             res_model = ''whisper-large-v3-turbo'', res_chunks = 3\<rparr>
   \<and> fst (create_chunks (example_env (Some 600) thirty_mb (\<lambda>_. True) (\<lambda>_. 200))
             (NamedPath ''talk.mp3'') (4 * 60) 15 example_state)
      = Inr [TempFile 0 ''_chunk_0.wav'', TempFile 1 ''_chunk_1.wav'',
             TempFile 2 ''_chunk_2.wav'']
   \<and> map (chunk_text example_transcriptor
             (example_env (Some 600) thirty_mb (\<lambda>_. True) (\<lambda>_. 200))
             ''es'' ''whisper-large-v3-turbo'' [] ''json'')
        [TempFile 0 ''_chunk_0.wav'', TempFile 1 ''_chunk_1.wav'', TempFile 2 ''_chunk_2.wav'']
      = [''_chunk_0.wav'', ''_chunk_1.wav'', ''_chunk_2.wav'']
   \<and> merged_text [''_chunk_0.wav'', ''_chunk_1.wav'', ''_chunk_2.wav'']
      = ''_chunk_0.wav'' @ [CHR 0x0A, CHR 0x0A] @ ''_chunk_1.wav''
          @ [CHR 0x0A, CHR 0x0A] @ ''_chunk_2.wav''"
proof -
  let ?e = "example_env (Some 600) thirty_mb (\<lambda>_. True) (\<lambda>_. 200)"
  let ?run = "transcribir_chunks example_transcriptor ?e
          (NamedPath ''talk.mp3'') (Some 600) ''es'' ''whisper-large-v3-turbo'' [] ''json''
          example_state"
  let ?cc = "create_chunks ?e (NamedPath ''talk.mp3'') (4 * 60) 15 example_state"
  let ?cs = "[TempFile 0 ''_chunk_0.wav'', TempFile 1 ''_chunk_1.wav'',
              TempFile 2 ''_chunk_2.wav'']"
  have r: "fst ?run
      = Inr \<lparr>res_text = ''_chunk_0.wav'' @ [CHR 0x0A, CHR 0x0A] @ ''_chunk_1.wav''
                          @ [CHR 0x0A, CHR 0x0A] @ ''_chunk_2.wav'',
             res_language = ''es'', res_duration = Some 600, res_success = True,
             res_model = ''whisper-large-v3-turbo'', res_chunks = 3\<rparr>"
    by (rule run_all_chunks)
  note h1 = pair_fstI [OF r]
  have c: "fst ?cc = Inr ?cs"
    using cut_all_600 [of "\<lambda>_. 200"] by simp
  note h2 = pair_fstI [OF c]
  have texts: "map (chunk_text example_transcriptor ?e
                      ''es'' ''whisper-large-v3-turbo'' [] ''json'') ?cs
               = [''_chunk_0.wav'', ''_chunk_1.wav'', ''_chunk_2.wav'']"
    by (simp add: chunk_text_def example_env_sel build_request_def returned_text_def)
  from chunked_text_merged [OF h1 h2]
  show ?thesis using r c texts by simp
qed

theorem api_error_aborts_job_witness:
  "NamedPath ''talk.mp3'' \<in> files example_state
   \<and> fst (create_chunks
             (example_env (Some 600) thirty_mb (\<lambda>_. True)
                (\<lambda>q. if q = TempFile 1 ''_chunk_1.wav'' then 429 else 200))
             (NamedPath ''talk.mp3'') (4 * 60) 15 example_state)
      = Inr ([TempFile 0 ''_chunk_0.wav''] @ TempFile 1 ''_chunk_1.wav''
               # [TempFile 2 ''_chunk_2.wav''])
   \<and> env_post
        (example_env (Some 600) thirty_mb (\<lambda>_. True)
           (\<lambda>q. if q = TempFile 1 ''_chunk_1.wav'' then 429 else 200))
        (build_request example_transcriptor (TempFile 0 ''_chunk_0.wav'')
           ''es'' ''whisper-large-v3-turbo'' [] ''json'')
      = Responded \<lparr>status_code = 200, response_text = ''slow down'',
                   json_text = ''_chunk_0.wav'', json_verbose = []\<rparr>
   \<and> env_post
        (example_env (Some 600) thirty_mb (\<lambda>_. True)
           (\<lambda>q. if q = TempFile 1 ''_chunk_1.wav'' then 429 else 200))
        (build_request example_transcriptor (TempFile 1 ''_chunk_1.wav'')
           ''es'' ''whisper-large-v3-turbo'' [] ''json'')
      = Responded \<lparr>status_code = 429, response_text = ''slow down'',
                   json_text = ''_chunk_1.wav'', json_verbose = []\<rparr>
   \<and> fst (transcribir_chunks example_transcriptor
             (example_env (Some 600) thirty_mb (\<lambda>_. True)
                (\<lambda>q. if q = TempFile 1 ''_chunk_1.wav'' then 429 else 200))
             (NamedPath ''talk.mp3'') (Some 600) ''es'' ''whisper-large-v3-turbo'' [] ''json''
             example_state)
      = Inl (Exception ''Error de API Groq: 429 - slow down'')
   \<and> posts_of (events_since
        (snd (create_chunks
                (example_env (Some 600) thirty_mb (\<lambda>_. True)
                   (\<lambda>q. if q = TempFile 1 ''_chunk_1.wav'' then 429 else 200))
                (NamedPath ''talk.mp3'') (4 * 60) 15 example_state))
        (snd (transcribir_chunks example_transcriptor
                (example_env (Some 600) thirty_mb (\<lambda>_. True)
                   (\<lambda>q. if q = TempFile 1 ''_chunk_1.wav'' then 429 else 200))
                (NamedPath ''talk.mp3'') (Some 600) ''es'' ''whisper-large-v3-turbo'' []
                ''json'' example_state)))
      = [build_request example_transcriptor (TempFile 0 ''_chunk_0.wav'')
           ''es'' ''whisper-large-v3-turbo'' [] ''json'',
         build_request example_transcriptor (TempFile 1 ''_chunk_1.wav'')
           ''es'' ''whisper-large-v3-turbo'' [] ''json'']"
proof -
  let ?e = "example_env (Some 600) thirty_mb (\<lambda>_. True)
              (\<lambda>q. if q = TempFile 1 ''_chunk_1.wav'' then 429 else 200)"
  let ?cc = "create_chunks ?e (NamedPath ''talk.mp3'') (4 * 60) 15 example_state"
  let ?r0 = "\<lparr>status_code = 200, response_text = ''slow down'',
              json_text = ''_chunk_0.wav'', json_verbose = []\<rparr>"
  let ?r1 = "\<lparr>status_code = 429, response_text = ''slow down'',
              json_text = ''_chunk_1.wav'', json_verbose = []\<rparr>"
  have h1: "NamedPath ''talk.mp3'' \<in> files example_state"
    by (simp add: example_state_def)
  have c: "fst ?cc = Inr ([TempFile 0 ''_chunk_0.wav''] @ TempFile 1 ''_chunk_1.wav''
                           # [TempFile 2 ''_chunk_2.wav''])"
    using cut_all_600 [of "\<lambda>q. if q = TempFile 1 ''_chunk_1.wav'' then 429 else 200"]
    by simp
  note h2 = pair_fstI [OF c]
  have p0: "env_post ?e (build_request example_transcriptor (TempFile 0 ''_chunk_0.wav'')
                           ''es'' ''whisper-large-v3-turbo'' [] ''json'') = Responded ?r0"
    by (simp add: example_env_sel build_request_def)
  have h3: "\<forall>q \<in> set [TempFile 0 ''_chunk_0.wav''].
              \<exists>r. env_post ?e (build_request example_transcriptor q
                                  ''es'' ''whisper-large-v3-turbo'' [] ''json'') = Responded r
                  \<and> status_code r = 200"
    using p0 by simp
  have h4: "env_post ?e (build_request example_transcriptor (TempFile 1 ''_chunk_1.wav'')
                           ''es'' ''whisper-large-v3-turbo'' [] ''json'') = Responded ?r1"
    by (simp add: example_env_sel build_request_def)
  have h5: "status_code ?r1 \<noteq> 200" by simp
  from api_error_aborts_job [OF h1 h2 h3 h4 h5, where dur = "Some 600"]
  show ?thesis
    using h1 c p0 h4 by (simp add: case_prod_beta show_int_def chunk_names)
qed


end
